theory Spec2Isabelle
  imports Main "HOL-Library.Char_ord"
begin

section \<open>Strings\<close>

text \<open>
  JavaScript strings are modelled as HOL strings: lists of 8-bit characters, read as the
  code units of a text whose code units are all below 256. \<open>split_on\<close> is
  \<^verbatim>\<open>String.prototype.split\<close> with a one-character separator (the empty string splits into
  one empty piece), \<open>join_sep\<close> is \<^verbatim>\<open>Array.prototype.join\<close>, \<open>indexOf\<close> is
  \<^verbatim>\<open>Array.prototype.indexOf\<close> with \<open>None\<close> for \<open>-1\<close>.
\<close>

fun split_on :: "char \<Rightarrow> string \<Rightarrow> string list" where
  "split_on sep [] = [[]]"
| "split_on sep (c # cs) =
     (if c = sep then [] # split_on sep cs
      else (case split_on sep cs of
              [] \<Rightarrow> [[c]]
            | x # xs \<Rightarrow> (c # x) # xs))"

fun join_sep :: "char \<Rightarrow> string list \<Rightarrow> string" where
  "join_sep sep [] = []"
| "join_sep sep [x] = x"
| "join_sep sep (x # y # ys) = x @ sep # join_sep sep (y # ys)"

fun indexOf :: "'a list \<Rightarrow> 'a \<Rightarrow> nat option" where
  "indexOf [] a = None"
| "indexOf (x # xs) a = (if x = a then Some 0 else map_option Suc (indexOf xs a))"

section \<open>Node's posix path functions\<close>

text \<open>
  \<^verbatim>\<open>path.normalize\<close>, \<^verbatim>\<open>path.join\<close>, \<^verbatim>\<open>path.dirname\<close>, \<^verbatim>\<open>path.basename\<close> and
  \<^verbatim>\<open>path.extname\<close> are library functions the program calls; they are modelled after
  Node's \<^verbatim>\<open>lib/path.js\<close> (posix flavour, where the backslash is an ordinary character).
  \<open>normalizeString\<close> walks the pieces between slashes with the result so far kept as a
  stack (last segment first): empty pieces and \<^verbatim>\<open>.\<close> are skipped, \<^verbatim>\<open>..\<close> removes the last
  segment unless there is none or it is \<^verbatim>\<open>..\<close> itself, in which case \<^verbatim>\<open>..\<close> is kept for
  a relative path and dropped for an absolute one.
\<close>

fun normalizeString :: "bool \<Rightarrow> string list \<Rightarrow> string list \<Rightarrow> string list" where
  "normalizeString allowAboveRoot res [] = rev res"
| "normalizeString allowAboveRoot res (s # ss) =
     (if s = [] \<or> s = ''.'' then normalizeString allowAboveRoot res ss
      else if s = ''..'' then
        (case res of
           [] \<Rightarrow> normalizeString allowAboveRoot (if allowAboveRoot then [''..''] else []) ss
         | r # rs \<Rightarrow>
             if r \<noteq> ''..'' then normalizeString allowAboveRoot rs ss
             else normalizeString allowAboveRoot (if allowAboveRoot then ''..'' # res else res) ss)
      else normalizeString allowAboveRoot (s # res) ss)"

definition posix_normalize :: "string \<Rightarrow> string" where
  "posix_normalize p =
     (if p = [] then ''.''
      else
        let isAbsolute = (hd p = CHR ''/'');
            trailingSeparator = (last p = CHR ''/'');
            np = join_sep CHR ''/'' (normalizeString (\<not> isAbsolute) [] (split_on CHR ''/'' p))
        in if np = [] then (if isAbsolute then ''/'' else if trailingSeparator then ''./'' else ''.'')
           else (if isAbsolute then ''/'' else []) @ np @ (if trailingSeparator then ''/'' else []))"

definition posix_join :: "string list \<Rightarrow> string" where
  "posix_join args =
     (let joined = join_sep CHR ''/'' (filter (\<lambda>a. a \<noteq> []) args)
      in if joined = [] then ''.'' else posix_normalize joined)"

text \<open>
  \<^verbatim>\<open>path.dirname\<close>, \<^verbatim>\<open>path.basename\<close> (without a suffix) and \<^verbatim>\<open>path.extname\<close>. All three
  ignore trailing slashes. \<open>posix_dirname\<close> scans from the end down to the second
  character for the last slash that is followed by a segment; \<open>posix_extname\<close> is the
  part of the last segment from its last dot on, empty when that dot is the segment's
  first character or the segment is \<^verbatim>\<open>..\<close>.
\<close>

definition posix_dirname :: "string \<Rightarrow> string" where
  "posix_dirname p =
     (if p = [] then ''.''
      else
        let hasRoot = (hd p = CHR ''/'');
            r = dropWhile (\<lambda>c. c \<noteq> CHR ''/'') (dropWhile (\<lambda>c. c = CHR ''/'') (rev (tl p)))
        in if r = [] then (if hasRoot then ''/'' else ''.'')
           else if hasRoot \<and> tl r = [] then ''//''
           else hd p # rev (tl r))"

definition posix_basename :: "string \<Rightarrow> string" where
  "posix_basename p =
     rev (takeWhile (\<lambda>c. c \<noteq> CHR ''/'') (dropWhile (\<lambda>c. c = CHR ''/'') (rev p)))"

definition posix_extname :: "string \<Rightarrow> string" where
  "posix_extname p =
     (let base = posix_basename p;
          ext = rev (takeWhile (\<lambda>c. c \<noteq> CHR ''.'') (rev base));
          pre = rev (dropWhile (\<lambda>c. c \<noteq> CHR ''.'') (rev base))
      in if pre = [] \<or> pre = ''.'' \<or> base = ''..'' then [] else CHR ''.'' # ext)"

section \<open>Path confinement: \<^verbatim>\<open>normalizePath\<close>\<close>

definition ROOT_DIR :: string where
  "ROOT_DIR = ''chaicode''"

text \<open>\<^verbatim>\<open>.replace(/\\/g, '/')\<close>: every backslash becomes a slash.\<close>

definition replaceBackslashes :: "string \<Rightarrow> string" where
  "replaceBackslashes s = map (\<lambda>c. if c = CHR 0x5C then CHR ''/'' else c) s"

text \<open>The local \<^verbatim>\<open>parts\<close> of \<^verbatim>\<open>normalizePath\<close>, before the splice.\<close>

definition pathParts :: "string \<Rightarrow> string list" where
  "pathParts filePath =
     filter (\<lambda>part. part \<noteq> []) (split_on CHR ''/'' (replaceBackslashes (posix_normalize filePath)))"

definition normalizePath :: "string \<Rightarrow> string" where
  "normalizePath filePath =
     (let parts = pathParts filePath;
          parts' = (case indexOf parts ''chaicode'' of
                      None \<Rightarrow> parts
                    | Some chaicodeIndex \<Rightarrow>
                        if chaicodeIndex \<noteq> 0 then drop chaicodeIndex parts else parts)
      in replaceBackslashes (posix_join (ROOT_DIR # parts')))"

text \<open>The non-empty segments of a path, used to speak about a path's first segments.\<close>

definition segments :: "string \<Rightarrow> string list" where
  "segments p = filter (\<lambda>s. s \<noteq> []) (split_on CHR ''/'' p)"

section \<open>JavaScript values and errors\<close>

text \<open>
  The values the program reads from the backend are results of \<^verbatim>\<open>JSON.parse\<close>. A number
  \<open>JNum m e\<close> stands for \<open>m * 10 ^ e\<close> (no arithmetic is done on numbers; only whether
  one is zero matters). An object keeps its members in order of first appearance.
  \<open>None :: json option\<close> is JavaScript's \<^verbatim>\<open>undefined\<close>.
\<close>

datatype json =
    JNull
  | JBool bool
  | JNum int int
  | JStr string
  | JArr "json list"
  | JObj "(string \<times> json) list"

text \<open>The exceptions that can be thrown in the modelled code.\<close>

datatype js_error = SyntaxError | TypeError | HttpError | NetworkError | ENOTDIR | EISDIR | ENOENT

text \<open>ToBoolean: what \<^verbatim>\<open>if (x)\<close>, \<^verbatim>\<open>x && y\<close> and \<^verbatim>\<open>x || y\<close> test.\<close>

fun truthy :: "json option \<Rightarrow> bool" where
  "truthy None = False"
| "truthy (Some JNull) = False"
| "truthy (Some (JBool b)) = b"
| "truthy (Some (JNum m e)) = (m \<noteq> 0)"
| "truthy (Some (JStr s)) = (s \<noteq> [])"
| "truthy (Some (JArr xs)) = True"
| "truthy (Some (JObj kvs)) = True"

text \<open>
  \<open>js_prop v name\<close> is the property read \<^verbatim>\<open>v.name\<close> on a value that is neither
  \<^verbatim>\<open>null\<close> nor \<^verbatim>\<open>undefined\<close>, for the property names the program reads (\<^verbatim>\<open>step\<close>,
  \<^verbatim>\<open>content\<close>, \<^verbatim>\<open>function\<close>, \<^verbatim>\<open>args\<close>, \<^verbatim>\<open>structure\<close>, \<^verbatim>\<open>candidates\<close>, \<^verbatim>\<open>parts\<close>,
  \<^verbatim>\<open>text\<close>, \<^verbatim>\<open>fileName\<close>, \<^verbatim>\<open>filePath\<close>, \<^verbatim>\<open>projectType\<close>, \<^verbatim>\<open>description\<close>): none of
  them is a property of a prototype, so only an object's own members answer.
  \<open>js_index0 v\<close> is \<^verbatim>\<open>v[0]\<close>. \<open>opt_chain\<close> is the optional chaining \<^verbatim>\<open>x?.p\<close>.
\<close>

fun js_prop :: "json \<Rightarrow> string \<Rightarrow> json option" where
  "js_prop (JObj kvs) name = map_of kvs name"
| "js_prop v name = None"

fun js_index0 :: "json \<Rightarrow> json option" where
  "js_index0 (JArr xs) = (case xs of [] \<Rightarrow> None | x # _ \<Rightarrow> Some x)"
| "js_index0 (JStr s) = (case s of [] \<Rightarrow> None | c # _ \<Rightarrow> Some (JStr [c]))"
| "js_index0 (JObj kvs) = map_of kvs ''0''"
| "js_index0 v = None"

fun opt_chain :: "json option \<Rightarrow> (json \<Rightarrow> json option) \<Rightarrow> json option" where
  "opt_chain None f = None"
| "opt_chain (Some JNull) f = None"
| "opt_chain (Some v) f = f v"

text \<open>
  Converting a value to a string (in a template literal, or as a property key) throws a
  \<^verbatim>\<open>TypeError\<close> for an object with a member named \<^verbatim>\<open>toString\<close>: the member hides the
  inherited method and, coming from JSON, is not a function. An array is converted by
  joining its elements, so it throws when one of them does. \<open>interpolation_throws\<close> is
  the same for a value that may be \<^verbatim>\<open>undefined\<close>.
\<close>

fun toString_throws :: "json \<Rightarrow> bool" where
  "toString_throws (JObj kvs) = (map_of kvs ''toString'' \<noteq> None)"
| "toString_throws (JArr xs) = list_ex toString_throws xs"
| "toString_throws v = False"

definition interpolation_throws :: "json option \<Rightarrow> bool" where
  "interpolation_throws v = (case v of None \<Rightarrow> False | Some j \<Rightarrow> toString_throws j)"

section \<open>\<^verbatim>\<open>JSON.parse\<close>\<close>

text \<open>
  \<^verbatim>\<open>JSON.parse\<close> is modelled as a lexer (one character at a time) followed by a stack
  machine over the tokens (one token at a time). A \<^verbatim>\<open>\uXXXX\<close> escape yields its code unit
  modulo 256, in line with the 8-bit characters of the model. \<open>None\<close> is a
  \<^verbatim>\<open>SyntaxError\<close>.
\<close>

datatype token =
    TLBrace | TRBrace | TLBrack | TRBrack | TColon | TComma
  | TString string | TNumber int int | TTrue | TFalse | TNull

definition is_digit :: "char \<Rightarrow> bool" where
  "is_digit c = (CHR ''0'' \<le> c \<and> c \<le> CHR ''9'')"

definition digit_val :: "char \<Rightarrow> nat" where
  "digit_val c = of_char c - of_char CHR ''0''"

definition hex_val :: "char \<Rightarrow> nat option" where
  "hex_val c =
     (if CHR ''0'' \<le> c \<and> c \<le> CHR ''9'' then Some (of_char c - of_char CHR ''0'')
      else if CHR ''a'' \<le> c \<and> c \<le> CHR ''f'' then Some (of_char c - of_char CHR ''a'' + 10)
      else if CHR ''A'' \<le> c \<and> c \<le> CHR ''F'' then Some (of_char c - of_char CHR ''A'' + 10)
      else None)"

definition digits_val :: "string \<Rightarrow> nat" where
  "digits_val ds = foldl (\<lambda>n c. 10 * n + digit_val c) 0 ds"

text \<open>The number grammar of JSON: \<^verbatim>\<open>-?(0|[1-9][0-9]*)(\.[0-9]+)?([eE][+-]?[0-9]+)?\<close>.\<close>

definition parse_exponent :: "string \<Rightarrow> int option" where
  "parse_exponent s =
     (case s of
        [] \<Rightarrow> Some 0
      | c # r \<Rightarrow>
          if c = CHR ''e'' \<or> c = CHR ''E'' then
            (let neg = (r \<noteq> [] \<and> hd r = CHR ''-'');
                 ds = (if r \<noteq> [] \<and> (hd r = CHR ''-'' \<or> hd r = CHR ''+'') then tl r else r)
             in if ds \<noteq> [] \<and> list_all is_digit ds
                then Some (if neg then - int (digits_val ds) else int (digits_val ds))
                else None)
          else None)"

text \<open>
  A number is a double: a decimal \<open>m * 10 ^ e\<close> of at most \<open>2 ^ -1075\<close> is read as
  zero, so that \<open>JNum m e\<close> with \<open>m \<noteq> 0\<close> is never the number zero.
\<close>

definition underflows :: "nat \<Rightarrow> int \<Rightarrow> bool" where
  "underflows m e = (e < 0 \<and> m * 2 ^ 1075 \<le> 10 ^ nat (- e))"

definition parse_number :: "string \<Rightarrow> token option" where
  "parse_number s =
     (let neg = (s \<noteq> [] \<and> hd s = CHR ''-'');
          s1 = (if neg then tl s else s);
          ip = takeWhile is_digit s1;
          s2 = dropWhile is_digit s1;
          hasFrac = (s2 \<noteq> [] \<and> hd s2 = CHR ''.'');
          fp = (if hasFrac then takeWhile is_digit (tl s2) else []);
          s3 = (if hasFrac then dropWhile is_digit (tl s2) else s2)
      in if ip = [] \<or> (length ip > 1 \<and> hd ip = CHR ''0'') \<or> (hasFrac \<and> fp = []) then None
         else (case parse_exponent s3 of
                 None \<Rightarrow> None
               | Some ex \<Rightarrow>
                   let m = digits_val (ip @ fp); e = ex - int (length fp)
                   in if underflows m e then Some (TNumber 0 0)
                      else Some (TNumber ((if neg then -1 else 1) * int m) e)))"

definition word_token :: "string \<Rightarrow> token option" where
  "word_token w =
     (if w = ''true'' then Some TTrue
      else if w = ''false'' then Some TFalse
      else if w = ''null'' then Some TNull
      else parse_number w)"

definition is_word_char :: "char \<Rightarrow> bool" where
  "is_word_char c =
     ((CHR ''a'' \<le> c \<and> c \<le> CHR ''z'') \<or> (CHR ''A'' \<le> c \<and> c \<le> CHR ''Z'')
      \<or> is_digit c \<or> c = CHR ''-'' \<or> c = CHR ''+'' \<or> c = CHR ''.'')"

definition is_json_space :: "char \<Rightarrow> bool" where
  "is_json_space c = (c = CHR '' '' \<or> c = CHR 0x09 \<or> c = CHR 0x0A \<or> c = CHR 0x0D)"

definition punct_token :: "char \<Rightarrow> token option" where
  "punct_token c =
     (if c = CHR ''{'' then Some TLBrace
      else if c = CHR ''}'' then Some TRBrace
      else if c = CHR ''['' then Some TLBrack
      else if c = CHR '']'' then Some TRBrack
      else if c = CHR '':'' then Some TColon
      else if c = CHR '','' then Some TComma
      else None)"

definition escape_char :: "char \<Rightarrow> char option" where
  "escape_char c =
     (if c = CHR 0x22 \<or> c = CHR 0x5C \<or> c = CHR ''/'' then Some c
      else if c = CHR ''b'' then Some (CHR 0x08)
      else if c = CHR ''f'' then Some (CHR 0x0C)
      else if c = CHR ''n'' then Some (CHR 0x0A)
      else if c = CHR ''r'' then Some (CHR 0x0D)
      else if c = CHR ''t'' then Some (CHR 0x09)
      else None)"

datatype lex_state =
    LStart
  | LWord string
  | LStr string
  | LEsc string
  | LUni string nat nat

text \<open>
  After the lexer state, the token list read so far (latest first). \<open>lex_char\<close> reads one
  character outside a word; a word (a literal name or a number) ends at the first
  character that cannot belong to one, which is then read by \<open>lex_char\<close>.
\<close>

definition lex_char :: "token list \<Rightarrow> char \<Rightarrow> (lex_state \<times> token list) option" where
  "lex_char acc c =
     (if is_json_space c then Some (LStart, acc)
      else if c = CHR 0x22 then Some (LStr [], acc)
      else if is_word_char c then Some (LWord [c], acc)
      else (case punct_token c of
              Some t \<Rightarrow> Some (LStart, t # acc)
            | None \<Rightarrow> None))"

fun lex_step :: "lex_state \<Rightarrow> token list \<Rightarrow> char \<Rightarrow> (lex_state \<times> token list) option" where
  "lex_step LStart acc c = lex_char acc c"
| "lex_step (LWord w) acc c =
     (if is_word_char c then Some (LWord (c # w), acc)
      else (case word_token (rev w) of
              None \<Rightarrow> None
            | Some t \<Rightarrow> lex_char (t # acc) c))"
| "lex_step (LStr s) acc c =
     (if c = CHR 0x22 then Some (LStart, TString (rev s) # acc)
      else if c = CHR 0x5C then Some (LEsc s, acc)
      else if c < CHR 0x20 then None
      else Some (LStr (c # s), acc))"
| "lex_step (LEsc s) acc c =
     (if c = CHR ''u'' then Some (LUni s 0 0, acc)
      else (case escape_char c of
              None \<Rightarrow> None
            | Some d \<Rightarrow> Some (LStr (d # s), acc)))"
| "lex_step (LUni s n v) acc c =
     (case hex_val c of
        None \<Rightarrow> None
      | Some d \<Rightarrow>
          if n = 3 then Some (LStr (char_of (16 * v + d) # s), acc)
          else Some (LUni s (Suc n) (16 * v + d), acc))"

fun lex_all :: "lex_state \<Rightarrow> token list \<Rightarrow> string \<Rightarrow> token list option" where
  "lex_all st acc [] =
     (case st of
        LStart \<Rightarrow> Some (rev acc)
      | LWord w \<Rightarrow> map_option (\<lambda>t. rev (t # acc)) (word_token (rev w))
      | _ \<Rightarrow> None)"
| "lex_all st acc (c # cs) =
     (case lex_step st acc c of
        None \<Rightarrow> None
      | Some (st', acc') \<Rightarrow> lex_all st' acc' cs)"

datatype frame = FArr "json list" | FObj "(string \<times> json) list" | FKey "(string \<times> json) list" string

datatype pmode = PValue | PValueOrEnd | PKeyOrEnd | PKey | PColon | PAfter | PDone json

text \<open>A repeated member name keeps its first place and takes the later value.\<close>

fun obj_put :: "(string \<times> json) list \<Rightarrow> string \<Rightarrow> json \<Rightarrow> (string \<times> json) list" where
  "obj_put [] k v = [(k, v)]"
| "obj_put ((k', v') # ms) k v = (if k' = k then (k, v) # ms else (k', v') # obj_put ms k v)"

fun complete :: "json \<Rightarrow> frame list \<Rightarrow> (pmode \<times> frame list) option" where
  "complete v [] = Some (PDone v, [])"
| "complete v (FArr es # st) = Some (PAfter, FArr (es @ [v]) # st)"
| "complete v (FKey ms k # st) = Some (PAfter, FObj (obj_put ms k v) # st)"
| "complete v (FObj ms # st) = None"

fun scalar_of :: "token \<Rightarrow> json option" where
  "scalar_of (TString s) = Some (JStr s)"
| "scalar_of (TNumber m e) = Some (JNum m e)"
| "scalar_of TTrue = Some (JBool True)"
| "scalar_of TFalse = Some (JBool False)"
| "scalar_of TNull = Some JNull"
| "scalar_of t = None"

definition value_start :: "bool \<Rightarrow> frame list \<Rightarrow> token \<Rightarrow> (pmode \<times> frame list) option" where
  "value_start mayEnd st t =
     (case scalar_of t of
        Some v \<Rightarrow> complete v st
      | None \<Rightarrow>
          if t = TLBrack then Some (PValueOrEnd, FArr [] # st)
          else if t = TLBrace then Some (PKeyOrEnd, FObj [] # st)
          else if t = TRBrack \<and> mayEnd then
            (case st of FArr es # st' \<Rightarrow> complete (JArr es) st' | _ \<Rightarrow> None)
          else None)"

definition key_start :: "bool \<Rightarrow> frame list \<Rightarrow> token \<Rightarrow> (pmode \<times> frame list) option" where
  "key_start mayEnd st t =
     (case (t, st) of
        (TString k, FObj ms # st') \<Rightarrow> Some (PColon, FKey ms k # st')
      | (TRBrace, FObj ms # st') \<Rightarrow> if mayEnd then complete (JObj ms) st' else None
      | _ \<Rightarrow> None)"

fun parse_step :: "pmode \<Rightarrow> frame list \<Rightarrow> token \<Rightarrow> (pmode \<times> frame list) option" where
  "parse_step PValue st t = value_start False st t"
| "parse_step PValueOrEnd st t = value_start True st t"
| "parse_step PKeyOrEnd st t = key_start True st t"
| "parse_step PKey st t = key_start False st t"
| "parse_step PColon st t = (if t = TColon then Some (PValue, st) else None)"
| "parse_step PAfter st t =
     (case (t, st) of
        (TComma, FArr es # st') \<Rightarrow> Some (PValue, st)
      | (TComma, FObj ms # st') \<Rightarrow> Some (PKey, st)
      | (TRBrack, FArr es # st') \<Rightarrow> complete (JArr es) st'
      | (TRBrace, FObj ms # st') \<Rightarrow> complete (JObj ms) st'
      | _ \<Rightarrow> None)"
| "parse_step (PDone v) st t = None"

fun parse_all :: "pmode \<Rightarrow> frame list \<Rightarrow> token list \<Rightarrow> json option" where
  "parse_all m st [] = (case m of PDone v \<Rightarrow> Some v | _ \<Rightarrow> None)"
| "parse_all m st (t # ts) =
     (case parse_step m st t of
        None \<Rightarrow> None
      | Some (m', st') \<Rightarrow> parse_all m' st' ts)"

definition JSON_parse :: "string \<Rightarrow> json option" where
  "JSON_parse s =
     (case lex_all LStart [] s of
        None \<Rightarrow> None
      | Some ts \<Rightarrow> parse_all PValue [] ts)"

section \<open>String methods and regular expressions\<close>

text \<open>
  White space and line terminators as ECMAScript defines them, restricted to 8-bit
  characters: \<^verbatim>\<open>\s\<close> and \<^verbatim>\<open>trim\<close> take tab, line feed, vertical tab, form feed,
  carriage return, space and no-break space; the line terminators are line feed and
  carriage return. \<open>toLowerCase\<close> maps \<^verbatim>\<open>A-Z\<close> and the Latin-1 capitals to lower case.
\<close>

definition is_js_space :: "char \<Rightarrow> bool" where
  "is_js_space c =
     (c = CHR 0x09 \<or> c = CHR 0x0A \<or> c = CHR 0x0B \<or> c = CHR 0x0C \<or> c = CHR 0x0D
      \<or> c = CHR 0x20 \<or> c = CHR 0xA0)"

definition is_line_terminator :: "char \<Rightarrow> bool" where
  "is_line_terminator c = (c = CHR 0x0A \<or> c = CHR 0x0D)"

definition is_regex_word :: "char \<Rightarrow> bool" where
  "is_regex_word c =
     ((CHR ''a'' \<le> c \<and> c \<le> CHR ''z'') \<or> (CHR ''A'' \<le> c \<and> c \<le> CHR ''Z'')
      \<or> (CHR ''0'' \<le> c \<and> c \<le> CHR ''9'') \<or> c = CHR ''_'')"

definition trim :: "string \<Rightarrow> string" where
  "trim s = rev (dropWhile is_js_space (rev (dropWhile is_js_space s)))"

definition lower_char :: "char \<Rightarrow> char" where
  "lower_char c =
     (if (CHR ''A'' \<le> c \<and> c \<le> CHR ''Z'')
         \<or> (CHR 0xC0 \<le> c \<and> c \<le> CHR 0xDE \<and> c \<noteq> CHR 0xD7)
      then char_of (of_char c + (32::nat)) else c)"

definition toLowerCase :: "string \<Rightarrow> string" where
  "toLowerCase s = map lower_char s"

text \<open>\<^verbatim>\<open>s.includes(t)\<close> and \<^verbatim>\<open>s.endsWith(t)\<close>.\<close>

fun is_prefix :: "string \<Rightarrow> string \<Rightarrow> bool" where
  "is_prefix [] s = True"
| "is_prefix (c # cs) [] = False"
| "is_prefix (c # cs) (d # ds) = (c = d \<and> is_prefix cs ds)"

fun str_includes :: "string \<Rightarrow> string \<Rightarrow> bool" where
  "str_includes [] t = (t = [])"
| "str_includes (c # cs) t = (is_prefix t (c # cs) \<or> str_includes cs t)"

definition endsWith :: "string \<Rightarrow> string \<Rightarrow> bool" where
  "endsWith s t = is_prefix (rev t) (rev s)"

text \<open>
  The regular expressions of the program use quantifiers on single characters and
  character classes only, groups that are not nested, alternation at the top, and the
  assertions \<^verbatim>\<open>^\<close> and \<^verbatim>\<open>$\<close> under the \<^verbatim>\<open>m\<close> flag. A pattern is a list of alternatives,
  an alternative a list of items. \<open>rmatch\<close> is the backtracking matcher of ECMAScript
  for them: a quantifier is greedy (it first tries to take one more character and falls
  back to the rest of the pattern), and the first way to match in that order is the
  result.
\<close>

datatype cclass =
    CLit char
  | CDot
  | CWord
  | CSpace
  | COneOf "cclass list"
  | CNot cclass

fun cmatch :: "cclass \<Rightarrow> char \<Rightarrow> bool" where
  "cmatch (CLit d) c = (c = d)"
| "cmatch CDot c = (\<not> is_line_terminator c)"
| "cmatch CWord c = is_regex_word c"
| "cmatch CSpace c = is_js_space c"
| "cmatch (COneOf cs) c = list_ex (\<lambda>k. cmatch k c) cs"
| "cmatch (CNot k) c = (\<not> cmatch k c)"

datatype ritem =
    One cclass
  | Opt cclass
  | Star cclass
  | Plus cclass
  | GOpen
  | GClose
  | Bol
  | Eol

text \<open>
  The state of a match: the character before the start of the match (for \<^verbatim>\<open>^\<close>), the
  text matched so far (latest character first), where the open group started, and the
  groups captured so far.
\<close>

record mstate =
  before :: "char option"
  taken :: string
  mark :: nat
  groups :: "string list"

definition take_char :: "char \<Rightarrow> mstate \<Rightarrow> mstate" where
  "take_char c st = st\<lparr>taken := c # taken st\<rparr>"

definition at_line_start :: "mstate \<Rightarrow> bool" where
  "at_line_start st =
     (case taken st of
        c # _ \<Rightarrow> is_line_terminator c
      | [] \<Rightarrow> (case before st of None \<Rightarrow> True | Some c \<Rightarrow> is_line_terminator c))"

definition close_group :: "mstate \<Rightarrow> mstate" where
  "close_group st =
     st\<lparr>groups := groups st @ [rev (take (length (taken st) - mark st) (taken st))]\<rparr>"

fun rmatch :: "ritem list \<Rightarrow> string \<Rightarrow> mstate \<Rightarrow> mstate option" where
  "rmatch [] s st = Some st"
| "rmatch (One k # rs) s st =
     (case s of
        [] \<Rightarrow> None
      | c # s' \<Rightarrow> if cmatch k c then rmatch rs s' (take_char c st) else None)"
| "rmatch (Opt k # rs) s st =
     (case (case s of
              [] \<Rightarrow> None
            | c # s' \<Rightarrow> if cmatch k c then rmatch rs s' (take_char c st) else None) of
        Some r \<Rightarrow> Some r
      | None \<Rightarrow> rmatch rs s st)"
| "rmatch (Star k # rs) s st =
     (case (case s of
              [] \<Rightarrow> None
            | c # s' \<Rightarrow> if cmatch k c then rmatch (Star k # rs) s' (take_char c st) else None) of
        Some r \<Rightarrow> Some r
      | None \<Rightarrow> rmatch rs s st)"
| "rmatch (Plus k # rs) s st =
     (case s of
        [] \<Rightarrow> None
      | c # s' \<Rightarrow> if cmatch k c then rmatch (Star k # rs) s' (take_char c st) else None)"
| "rmatch (GOpen # rs) s st = rmatch rs s (st\<lparr>mark := length (taken st)\<rparr>)"
| "rmatch (GClose # rs) s st = rmatch rs s (close_group st)"
| "rmatch (Bol # rs) s st = (if at_line_start st then rmatch rs s st else None)"
| "rmatch (Eol # rs) s st =
     (if s = [] \<or> is_line_terminator (hd s) then rmatch rs s st else None)"

fun match_here :: "ritem list list \<Rightarrow> char option \<Rightarrow> string \<Rightarrow> mstate option" where
  "match_here [] b s = None"
| "match_here (alt # alts) b s =
     (case rmatch alt s \<lparr>before = b, taken = [], mark = 0, groups = []\<rparr> of
        Some r \<Rightarrow> Some r
      | None \<Rightarrow> match_here alts b s)"

text \<open>
  \<^verbatim>\<open>s.match(re)\<close> for a pattern without the \<^verbatim>\<open>g\<close> flag: the leftmost match, as the list
  of its captured groups; \<open>None\<close> is \<^verbatim>\<open>null\<close>.
\<close>

fun search_from :: "ritem list list \<Rightarrow> char option \<Rightarrow> string \<Rightarrow> string list option" where
  "search_from re b [] = map_option groups (match_here re b [])"
| "search_from re b (c # cs) =
     (case match_here re b (c # cs) of
        Some r \<Rightarrow> Some (groups r)
      | None \<Rightarrow> search_from re (Some c) cs)"

definition js_match :: "string \<Rightarrow> ritem list list \<Rightarrow> string list option" where
  "js_match s re = search_from re None s"

text \<open>
  \<^verbatim>\<open>s.replace(re, '')\<close> for a pattern with the \<^verbatim>\<open>g\<close> flag: every match, found from left
  to right, is removed; the search goes on after a match, one character further when the
  match was empty. \<open>skip\<close> counts the characters of the current match still to drop.
\<close>

fun remove_from :: "ritem list list \<Rightarrow> char option \<Rightarrow> nat \<Rightarrow> string \<Rightarrow> string" where
  "remove_from re b skip [] = []"
| "remove_from re b skip (c # cs) =
     (if skip > 0 then remove_from re (Some c) (skip - 1) cs
      else (case match_here re b (c # cs) of
              None \<Rightarrow> c # remove_from re (Some c) 0 cs
            | Some r \<Rightarrow>
                if taken r = [] then c # remove_from re (Some c) 0 cs
                else remove_from re (Some c) (length (taken r) - 1) cs))"

definition remove_all :: "string \<Rightarrow> ritem list list \<Rightarrow> string" where
  "remove_all s re = remove_from re None 0 s"

definition lits :: "string \<Rightarrow> ritem list" where
  "lits s = map (\<lambda>c. One (CLit c)) s"

text \<open>
  The patterns of the program:
  \<^verbatim>\<open>/^```json\s*|\s*```$/gm\<close>, \<^verbatim>\<open>/^```.*$/gm\<close>, \<^verbatim>\<open>/\n\s*/g\<close>,
  \<^verbatim>\<open>/identified as an? ([\w\s]+)\./\<close>, \<^verbatim>\<open>/I'll name it '([^']+)'/\<close>,
  \<^verbatim>\<open>/Found project '([^']+)'/\<close> and
  \<^verbatim>\<open>/Found project '([^']+)' in '.*' with a ([^']+)\.(\w+)/\<close>.
\<close>

definition re_json_fence :: "ritem list list" where
  "re_json_fence =
     [ [Bol] @ lits ''```json'' @ [Star CSpace],
       [Star CSpace] @ lits ''```'' @ [Eol] ]"

definition re_fence_line :: "ritem list list" where
  "re_fence_line = [ [Bol] @ lits ''```'' @ [Star CDot, Eol] ]"

definition re_newline_indent :: "ritem list list" where
  "re_newline_indent = [ [One (CLit (CHR 0x0A)), Star CSpace] ]"

definition re_type :: "ritem list list" where
  "re_type =
     [ lits ''identified as a'' @ [Opt (CLit CHR ''n'')] @ lits '' ''
       @ [GOpen, Plus (COneOf [CWord, CSpace]), GClose, One (CLit CHR ''.'')] ]"

definition re_name_it :: "ritem list list" where
  "re_name_it =
     [ lits ''I'' @ [One (CLit (CHR 0x27))] @ lits ''ll name it '' @ [One (CLit (CHR 0x27))]
       @ [GOpen, Plus (CNot (CLit (CHR 0x27))), GClose, One (CLit (CHR 0x27))] ]"

definition re_found_project :: "ritem list list" where
  "re_found_project =
     [ lits ''Found project '' @ [One (CLit (CHR 0x27))]
       @ [GOpen, Plus (CNot (CLit (CHR 0x27))), GClose, One (CLit (CHR 0x27))] ]"

definition re_update_file :: "ritem list list" where
  "re_update_file =
     [ lits ''Found project '' @ [One (CLit (CHR 0x27))]
       @ [GOpen, Plus (CNot (CLit (CHR 0x27))), GClose, One (CLit (CHR 0x27))]
       @ lits '' in '' @ [One (CLit (CHR 0x27)), Star CDot, One (CLit (CHR 0x27))]
       @ lits '' with a ''
       @ [GOpen, Plus (CNot (CLit (CHR 0x27))), GClose, One (CLit CHR ''.''),
          GOpen, Plus CWord, GClose] ]"

section \<open>The execution instructions template: \<^verbatim>\<open>generateExecuteMdContent\<close>\<close>

text \<open>
  The text the function builds with \<^verbatim>\<open>content += ...\<close>, in four variants chosen by the
  project type; \<open>executeMdHeader\<close> is the part before the choice.
\<close>

definition executeMdHeader :: "string \<Rightarrow> string \<Rightarrow> string" where
  \<open>executeMdHeader projectType projectName =
     ''# Execution Instructions for '' @ projectName @ [CHR 0x0A] @ [CHR 0x0A]
     @ ''This document provides detailed instructions on how to run your '' @ projectType
     @ '' project, along with necessary dependencies, compatibility information, and potential issues you might encounter.''
     @ [CHR 0x0A] @ [CHR 0x0A] @ ''## How to Run the Project'' @ [CHR 0x0A] @ [CHR 0x0A]\<close>

definition executeMdHtml :: "string \<Rightarrow> string" where
  \<open>executeMdHtml projectName =
     ''- **Step 1**: Navigate to the project directory: `'' @ ROOT_DIR @ ''/'' @ projectName
     @ ''`'' @ [CHR 0x0A]
     @ ''- **Step 2**: Open `index.html` in a web browser (e.g., Chrome, Firefox) by double-clicking the file or right-clicking and selecting "Open with" your browser.''
     @ [CHR 0x0A] @ [CHR 0x0A] @ ''### Dependencies'' @ [CHR 0x0A]
     @ ''- None required. This is a static HTML project that runs directly in a browser.''
     @ [CHR 0x0A] @ [CHR 0x0A] @ ''### Compatibility'' @ [CHR 0x0A]
     @ ''- Works on all modern browsers (Chrome, Firefox, Edge, Safari).'' @ [CHR 0x0A]
     @ ''- No additional software needed.'' @ [CHR 0x0A] @ [CHR 0x0A] @ ''### Potential Issues''
     @ [CHR 0x0A]
     @ ''- **Browser Compatibility**: Ensure your browser is up to date to support modern HTML5/CSS3 features.''
     @ [CHR 0x0A]
     @ ''- **File Path Issues**: If the page doesn't load correctly, ensure you're opening the file directly from the file system (not through a server unless specified).''
     @ [CHR 0x0A]\<close>

definition executeMdPython :: "string \<Rightarrow> string" where
  \<open>executeMdPython projectName =
     ''- **Step 1**: Open your terminal.'' @ [CHR 0x0A]
     @ ''- **Step 2**: Navigate to the project directory:'' @ [CHR 0x0A] @ ''  ```bash''
     @ [CHR 0x0A] @ ''  cd '' @ ROOT_DIR @ ''/'' @ projectName @ [CHR 0x0A] @ ''  ```''
     @ [CHR 0x0A] @ ''- **Step 3**: Run the script:'' @ [CHR 0x0A] @ ''  ```bash'' @ [CHR 0x0A]
     @ ''  python '' @ projectName @ ''.py'' @ [CHR 0x0A] @ ''  ```'' @ [CHR 0x0A] @ [CHR 0x0A]
     @ ''### Dependencies'' @ [CHR 0x0A] @ ''- **Python**: Version 3.6 or higher is required.''
     @ [CHR 0x0A] @ ''- No additional libraries are needed for this basic script.'' @ [CHR 0x0A]
     @ [CHR 0x0A] @ ''### Compatibility'' @ [CHR 0x0A] @ ''- Works on Windows, macOS, and Linux.''
     @ [CHR 0x0A]
     @ ''- Requires Python to be installed (download from https://www.python.org/downloads/).''
     @ [CHR 0x0A] @ [CHR 0x0A] @ ''### Potential Issues'' @ [CHR 0x0A]
     @ ''- **Python Not Installed**: If Python isn't installed, you'll see a "command not found" error. Install Python and ensure it's added to your PATH.''
     @ [CHR 0x0A]
     @ ''- **Version Mismatch**: Ensure you're using Python 3 (run `python --version` or `python3 --version`).''
     @ [CHR 0x0A]
     @ ''- **File Path Issues**: Ensure you're in the correct directory when running the script.''
     @ [CHR 0x0A]\<close>

definition executeMdReact :: "string \<Rightarrow> string" where
  \<open>executeMdReact projectName =
     ''- **Step 1**: Open your terminal.'' @ [CHR 0x0A]
     @ ''- **Step 2**: Navigate to the project directory:'' @ [CHR 0x0A] @ ''  ```bash''
     @ [CHR 0x0A] @ ''  cd '' @ ROOT_DIR @ ''/'' @ projectName @ [CHR 0x0A] @ ''  ```''
     @ [CHR 0x0A] @ ''- **Step 3**: Install dependencies:'' @ [CHR 0x0A] @ ''  ```bash''
     @ [CHR 0x0A] @ ''  npm install'' @ [CHR 0x0A] @ ''  ```'' @ [CHR 0x0A]
     @ ''- **Step 4**: Start the development server:'' @ [CHR 0x0A] @ ''  ```bash'' @ [CHR 0x0A]
     @ ''  npm start'' @ [CHR 0x0A] @ ''  ```'' @ [CHR 0x0A]
     @ ''- **Step 5**: Open http://localhost:3000 in your browser.'' @ [CHR 0x0A] @ [CHR 0x0A]
     @ ''### Dependencies'' @ [CHR 0x0A]
     @ ''- **Node.js**: Version 14 or higher (includes npm). Download from https://nodejs.org/.''
     @ [CHR 0x0A] @ ''- **React**: Included in the project (installed via npm).'' @ [CHR 0x0A]
     @ ''- **Tailwind CSS**: Assumed to be set up in the project (via npm).'' @ [CHR 0x0A]
     @ [CHR 0x0A] @ ''### Compatibility'' @ [CHR 0x0A] @ ''- Works on Windows, macOS, and Linux.''
     @ [CHR 0x0A] @ ''- Requires Node.js and npm to be installed.'' @ [CHR 0x0A]
     @ ''- Best viewed in modern browsers (Chrome, Firefox, Edge).'' @ [CHR 0x0A] @ [CHR 0x0A]
     @ ''### Potential Issues'' @ [CHR 0x0A]
     @ ''- **Node.js Not Installed**: If Node.js isn't installed, you'll see a "command not found" error. Install Node.js and npm.''
     @ [CHR 0x0A]
     @ ''- **Port Conflict**: If port 3000 is in use, the React dev server will prompt you to use a different port.''
     @ [CHR 0x0A]
     @ ''- **Dependency Errors**: If `npm install` fails, delete the `node_modules` folder and `package-lock.json` file, then run `npm install` again.''
     @ [CHR 0x0A]\<close>

definition executeMdOther :: "string \<Rightarrow> string" where
  \<open>executeMdOther projectName =
     ''- **Step 1**: Navigate to the project directory: `'' @ ROOT_DIR @ ''/'' @ projectName
     @ ''`'' @ [CHR 0x0A]
     @ ''- **Step 2**: Refer to the specific instructions in the `README.md` file for running the project.''
     @ [CHR 0x0A] @ [CHR 0x0A] @ ''### Dependencies'' @ [CHR 0x0A]
     @ ''- Refer to the `README.md` file for any required dependencies.'' @ [CHR 0x0A] @ [CHR 0x0A]
     @ ''### Compatibility'' @ [CHR 0x0A]
     @ ''- Refer to the `README.md` file for compatibility information.'' @ [CHR 0x0A] @ [CHR 0x0A]
     @ ''### Potential Issues'' @ [CHR 0x0A]
     @ ''- **Missing Dependencies**: Ensure all required software and libraries are installed as per the `README.md`.''
     @ [CHR 0x0A]
     @ ''- **Environment Setup**: Check your environment configuration if the project fails to run.''
     @ [CHR 0x0A]\<close>

definition generateExecuteMdContent :: "string \<Rightarrow> string \<Rightarrow> string" where
  "generateExecuteMdContent projectType projectName =
     executeMdHeader projectType projectName
     @ (if str_includes (toLowerCase projectType) ''html'' then executeMdHtml projectName
        else if str_includes (toLowerCase projectType) ''python'' then executeMdPython projectName
        else if str_includes (toLowerCase projectType) ''react'' then executeMdReact projectName
        else executeMdOther projectName)"

section \<open>The file system\<close>

text \<open>
  The content of a file. The program writes a string with \<^verbatim>\<open>writeFileSync\<close>, which
  encodes it as UTF-8, and reads a file with \<^verbatim>\<open>readFileSync(fileName, 'utf-8')\<close>, which
  decodes its bytes. A JavaScript string is a sequence of UTF-16 code units, integers
  from 0 to 65535. The encoding has no bytes for a surrogate without its partner (a unit
  from D800 to DBFF not followed by one from DC00 to DFFF, or one of the latter not
  preceded by one of the former) and writes U+FFFD in its place; every other text is
  read back as it was written. \<open>toWellFormed\<close> is that replacement (the effect of
  \<^verbatim>\<open>String.prototype.toWellFormed\<close>), \<open>isWellFormed\<close> says that a text has no such
  surrogate, and \<open>units_of\<close> gives the code units of a string of the model, which are
  all below 256.
\<close>

definition units_of :: "string \<Rightarrow> int list" where
  "units_of s = map of_char s"

definition isHighSurrogate :: "int \<Rightarrow> bool" where
  "isHighSurrogate u = (0xD800 \<le> u \<and> u \<le> 0xDBFF)"

definition isLowSurrogate :: "int \<Rightarrow> bool" where
  "isLowSurrogate u = (0xDC00 \<le> u \<and> u \<le> 0xDFFF)"

fun toWellFormed :: "int list \<Rightarrow> int list" where
  "toWellFormed [] = []"
| "toWellFormed [u] = (if isHighSurrogate u \<or> isLowSurrogate u then [0xFFFD] else [u])"
| "toWellFormed (u # v # us) =
     (if isHighSurrogate u then
        (if isLowSurrogate v then u # v # toWellFormed us
         else 0xFFFD # toWellFormed (v # us))
      else if isLowSurrogate u then 0xFFFD # toWellFormed (v # us)
      else u # toWellFormed (v # us))"


text \<open>
  A file system state maps a path, written relative to the working directory as the
  program writes it, to a regular file or to a directory; the working directory itself
  is the entry \<^verbatim>\<open>.\<close>. A regular file is given by the text its bytes decode to, which is
  all the program reads of it. The functions of Node's \<^verbatim>\<open>fs\<close> module are modelled with the
  failures that depend on that state: writing needs the parent to be a directory and the
  target not to be one, reading needs a regular file, and \<^verbatim>\<open>mkdirSync\<close> with
  \<^verbatim>\<open>recursive\<close> fails when a path on the way is a regular file. Failures for other
  reasons (permissions, a full disk) are outside the model.
\<close>

datatype node = File "int list" | Dir

type_synonym fs = "string \<Rightarrow> node option"

definition existsSync :: "fs \<Rightarrow> string \<Rightarrow> bool" where
  "existsSync fs p = (fs p \<noteq> None)"

definition is_file :: "node option \<Rightarrow> bool" where
  "is_file n = (case n of Some (File _) \<Rightarrow> True | _ \<Rightarrow> False)"

fun path_prefixes :: "string \<Rightarrow> string list \<Rightarrow> string list" where
  "path_prefixes pre [] = []"
| "path_prefixes pre (s # ss) =
     (let q = (if pre = [] then s else pre @ CHR ''/'' # s) in q # path_prefixes q ss)"

definition mkdirSync :: "fs \<Rightarrow> string \<Rightarrow> js_error + fs" where
  "mkdirSync fs p =
     (let qs = path_prefixes [] (segments p)
      in if list_ex (\<lambda>q. is_file (fs q)) qs then Inl ENOTDIR
         else Inr (foldl (\<lambda>f q. f(q \<mapsto> Dir)) fs qs))"

definition readFileSync :: "fs \<Rightarrow> string \<Rightarrow> js_error + int list" where
  "readFileSync fs p =
     (case fs p of
        Some (File c) \<Rightarrow> Inr c
      | Some Dir \<Rightarrow> Inl EISDIR
      | None \<Rightarrow> Inl ENOENT)"

text \<open>
  The data written is \<^verbatim>\<open>args.content\<close>, any value, here the code units of a string or
  \<open>None\<close> for a value that is not a string: \<^verbatim>\<open>writeFileSync\<close> rejects such data with a
  \<^verbatim>\<open>TypeError\<close> before it opens the file. What the file then holds is the text that the
  bytes written decode to.
\<close>

definition writeFileSync :: "fs \<Rightarrow> string \<Rightarrow> int list option \<Rightarrow> js_error + fs" where
  "writeFileSync fs p data =
     (case data of
        Some c \<Rightarrow>
          if fs p = Some Dir then Inl EISDIR
          else if fs (posix_dirname p) = Some Dir then Inr (fs(p \<mapsto> File (toWellFormed c)))
          else if fs (posix_dirname p) = None then Inl ENOENT
          else Inl ENOTDIR
      | None \<Rightarrow> Inl TypeError)"

text \<open>
  \<^verbatim>\<open>ensureRootDir\<close>: creating the one-segment path \<^verbatim>\<open>chaicode\<close> when nothing is there
  cannot meet a regular file on the way.
\<close>

definition ensureRootDir :: "fs \<Rightarrow> fs" where
  "ensureRootDir fs = (if \<not> existsSync fs ROOT_DIR then fs(ROOT_DIR \<mapsto> Dir) else fs)"

section \<open>The tools\<close>

text \<open>
  The message of a caught error, as the program puts it into its result strings, is
  abbreviated to the name of the error.
\<close>

fun error_message :: "js_error \<Rightarrow> string" where
  "error_message SyntaxError = ''SyntaxError''"
| "error_message TypeError = ''TypeError''"
| "error_message HttpError = ''HTTP error!''"
| "error_message NetworkError = ''NetworkError''"
| "error_message ENOTDIR = ''ENOTDIR''"
| "error_message EISDIR = ''EISDIR''"
| "error_message ENOENT = ''ENOENT''"

definition errorResult :: "js_error \<Rightarrow> string" where
  "errorResult e = ''Error creating/updating file: '' @ error_message e"

definition createdResult :: "string \<Rightarrow> string" where
  "createdResult fileName = ''File '' @ fileName @ '' created successfully''"

definition updatedResult :: "string \<Rightarrow> string" where
  "updatedResult fileName = ''File '' @ fileName @ '' updated successfully''"

definition unchangedResult :: "string \<Rightarrow> string" where
  "unchangedResult fileName = ''File '' @ fileName @ '' unchanged (content identical)''"

text \<open>
  \<^verbatim>\<open>createDynamicFile(args)\<close>. \<open>createDynamicFile_strings\<close> is the \<^verbatim>\<open>try\<close> block for a file
  name that is a string and a content given by its code units (\<open>None\<close> for a content that
  is not a string, which is equal to no text read from a file): every error in it is
  caught and turned into a result string.
\<close>

definition createDynamicFile_strings :: "fs \<Rightarrow> string \<Rightarrow> int list option \<Rightarrow> fs \<times> string" where
  "createDynamicFile_strings fs name content =
     (let fs1 = ensureRootDir fs;
          fileName = normalizePath name;
          dirPath = posix_dirname fileName
      in (case (if dirPath \<noteq> ROOT_DIR \<and> \<not> existsSync fs1 dirPath
                then mkdirSync fs1 dirPath else Inr fs1) of
            Inl e \<Rightarrow> (fs1, errorResult e)
          | Inr fs2 \<Rightarrow>
              if existsSync fs2 fileName then
                (case readFileSync fs2 fileName of
                   Inl e \<Rightarrow> (fs2, errorResult e)
                 | Inr existingContent \<Rightarrow>
                     if Some existingContent = content
                     then (fs2, unchangedResult fileName)
                     else (case writeFileSync fs2 fileName content of
                             Inl e \<Rightarrow> (fs2, errorResult e)
                           | Inr fs3 \<Rightarrow> (fs3, updatedResult fileName)))
              else (case writeFileSync fs2 fileName content of
                      Inl e \<Rightarrow> (fs2, errorResult e)
                    | Inr fs3 \<Rightarrow> (fs3, createdResult fileName))))"

text \<open>The code units of a value that is a string.\<close>

definition stringUnits :: "json option \<Rightarrow> int list option" where
  "stringUnits v = (case v of Some (JStr s) \<Rightarrow> Some (units_of s) | _ \<Rightarrow> None)"

text \<open>
  The arguments come as a JSON value. \<^verbatim>\<open>normalizePath\<close> throws a \<^verbatim>\<open>TypeError\<close> when
  \<^verbatim>\<open>args.fileName\<close> is not a string, and so does reading \<^verbatim>\<open>args.fileName\<close> when \<^verbatim>\<open>args\<close> is
  \<^verbatim>\<open>null\<close> (or \<^verbatim>\<open>undefined\<close>, passed as \<open>JNull\<close>). The \<^verbatim>\<open>catch\<close> block reads \<^verbatim>\<open>args.fileName\<close>
  again for its log line, which throws again when \<^verbatim>\<open>args\<close> is \<^verbatim>\<open>null\<close> or the file name
  cannot be converted to a string: only then does the function throw (\<open>Inl\<close>, with the
  file system \<^verbatim>\<open>ensureRootDir\<close> left).
\<close>

definition createDynamicFile :: "fs \<Rightarrow> json \<Rightarrow> (js_error \<times> fs) + (fs \<times> string)" where
  "createDynamicFile fs args =
     (if args = JNull then Inl (TypeError, ensureRootDir fs)
      else
        (case js_prop args ''fileName'' of
           Some (JStr name) \<Rightarrow>
             Inr (createDynamicFile_strings fs name (stringUnits (js_prop args ''content'')))
         | v \<Rightarrow>
             if interpolation_throws v then Inl (TypeError, ensureRootDir fs)
             else Inr (ensureRootDir fs, errorResult TypeError)))"


text \<open>
  \<^verbatim>\<open>presentStructure(structure)\<close> with the answer the user types at the prompt:
  \<^verbatim>\<open>structure.forEach\<close> throws unless the structure is an array, and printing an entry
  throws when the entry cannot be converted to a string.
\<close>

definition presentStructure :: "json \<Rightarrow> string \<Rightarrow> js_error + bool" where
  "presentStructure structure answer =
     (case structure of
        JArr files \<Rightarrow>
          if list_ex toString_throws files then Inl TypeError
          else Inr (toLowerCase (trim answer) = ''yes'')
      | _ \<Rightarrow> Inl TypeError)"

text \<open>
  A call of the backend: \<^verbatim>\<open>fetch\<close> throws, or the status is not ok, or the body is not
  JSON (\<^verbatim>\<open>response.json()\<close> throws), or the body is the JSON value \<open>data\<close>.
  \<open>candidateText\<close> is \<^verbatim>\<open>data.candidates?.[0]?.content?.parts?.[0]?.text\<close>; reading
  \<^verbatim>\<open>candidates\<close> of \<^verbatim>\<open>null\<close> throws.
\<close>

datatype fetch_outcome = FetchThrows | StatusNotOk | BodyInvalid | BodyJson json

definition candidateText :: "fetch_outcome \<Rightarrow> js_error + json option" where
  "candidateText f =
     (case f of
        FetchThrows \<Rightarrow> Inl NetworkError
      | StatusNotOk \<Rightarrow> Inl HttpError
      | BodyInvalid \<Rightarrow> Inl SyntaxError
      | BodyJson data \<Rightarrow>
          if data = JNull then Inl TypeError
          else Inr (opt_chain (opt_chain (opt_chain (opt_chain (opt_chain
                 (js_prop data ''candidates'')
                 js_index0) (\<lambda>v. js_prop v ''content'')) (\<lambda>v. js_prop v ''parts''))
                 js_index0) (\<lambda>v. js_prop v ''text'')))"

text \<open>A body that carries the given text in its first candidate.\<close>

definition replyBody :: "json \<Rightarrow> json" where
  "replyBody t =
     JObj [(''candidates'', JArr [JObj [(''content'', JObj [(''parts'', JArr [JObj [(''text'', t)]])])]])]"

text \<open>
  \<^verbatim>\<open>.replace(/^```json\s*|\s*```$/gm, '').replace(/^```.*$/gm, '').trim()\<close>
\<close>

definition stripFences :: "string \<Rightarrow> string" where
  "stripFences rawText = remove_all (remove_all rawText re_json_fence) re_fence_line"

text \<open>
  \<^verbatim>\<open>generateProjectStructure(projectType, description)\<close>. The two arguments only enter
  the prompt sent to the backend; the prompt is built before the \<^verbatim>\<open>try\<close> block, so an
  argument that cannot be converted to a string makes the function throw (\<open>Inl\<close>). The
  backend's answer is the \<open>fetch_outcome\<close>. A truthy text that is not a string has no
  \<^verbatim>\<open>replace\<close> method: the \<^verbatim>\<open>TypeError\<close> is caught by the outer \<^verbatim>\<open>catch\<close>.
\<close>

definition generateProjectStructure ::
    "fetch_outcome \<Rightarrow> json option \<Rightarrow> json option \<Rightarrow> js_error + string" where
  "generateProjectStructure response projectType description =
     (if interpolation_throws projectType \<or> interpolation_throws description then Inl TypeError
      else
        (case candidateText response of
           Inl e \<Rightarrow> Inr ''{}''
         | Inr t \<Rightarrow>
             (case (if truthy t then t else Some (JStr ''{}'')) of
                Some (JStr rawText) \<Rightarrow>
                  let cleanedText = trim (stripFences rawText)
                  in (case JSON_parse cleanedText of
                        Some v \<Rightarrow> Inr cleanedText
                      | None \<Rightarrow> Inr ''{}'')
              | _ \<Rightarrow> Inr ''{}'')))"

text \<open>
  \<^verbatim>\<open>generateFileContent(filePath, projectType, description, isUpdate, updateIssue)\<close>;
  \<open>projectName\<close> is the module variable it reads. The description, the update flag and
  the issue only enter the prompt. It throws a \<^verbatim>\<open>TypeError\<close> when \<^verbatim>\<open>filePath\<close> is not a
  string (in \<^verbatim>\<open>normalizePath\<close>), when the project type or the description cannot be
  converted to a string for the prompt, and when \<^verbatim>\<open>projectType.toLowerCase()\<close> is reached
  with a project type that is not a string; the fetch is inside \<^verbatim>\<open>try\<close>.
\<close>

definition fileTypeOf :: "string \<Rightarrow> string" where
  "fileTypeOf filePath =
     (let ext = drop 1 (posix_extname filePath)
      in if ext \<noteq> [] then ext else posix_basename filePath)"

definition generateFileContent ::
    "fetch_outcome \<Rightarrow> string option \<Rightarrow> json option \<Rightarrow> json option \<Rightarrow> json option
      \<Rightarrow> js_error + json" where
  "generateFileContent response projectName filePath projectType description =
     (case filePath of
        Some (JStr path) \<Rightarrow>
          let normalizedFilePath = normalizePath path;
              fileType = fileTypeOf path
          in if interpolation_throws projectType \<or> interpolation_throws description
             then Inl TypeError
             else if fileType = ''md'' \<and> endsWith normalizedFilePath ''execute.md'' then
               (case projectType of
                  Some (JStr pt) \<Rightarrow>
                    Inr (JStr (generateExecuteMdContent pt
                           (case projectName of
                              None \<Rightarrow> ''unknown''
                            | Some n \<Rightarrow> if n = [] then ''unknown'' else n)))
                | _ \<Rightarrow> Inl TypeError)
             else if fileType \<noteq> ''html'' \<and> (case projectType of Some (JStr pt) \<Rightarrow> False | _ \<Rightarrow> True)
               then Inl TypeError
             else
               (case candidateText response of
                  Inl e \<Rightarrow> Inr (JStr (''// Error generating content for '' @ normalizedFilePath))
                | Inr t \<Rightarrow>
                    if truthy t then Inr (the t)
                    else Inr (JStr (''// Default '' @ fileType @ '' content'')))
      | _ \<Rightarrow> Inl TypeError)"

text \<open>
  \<^verbatim>\<open>generateContent()\<close>: the backend's text, or \<^verbatim>\<open>null\<close> (\<open>None\<close>) when the call fails or
  the text is missing or falsy.
\<close>

definition generateContent :: "fetch_outcome \<Rightarrow> json option" where
  "generateContent response =
     (case candidateText response of
        Inl e \<Rightarrow> None
      | Inr t \<Rightarrow> if truthy t then t else None)"

section \<open>The workflow driver: \<^verbatim>\<open>runAgent\<close>\<close>

text \<open>
  The conversation log \<^verbatim>\<open>contents\<close> holds turns of a role and a text. The texts the
  driver builds with \<^verbatim>\<open>JSON.stringify\<close> are kept as the value that was serialised: a
  JSON value, the string \<^verbatim>\<open>JSON.stringify(v)\<close> (serialised once more), or the object
  \<^verbatim>\<open>readDirectory\<close> returned for its argument.
\<close>

datatype role = User | Model

datatype js_value = ValJson json | ValStringified json | ValDirectory "json option"

datatype turn_text = Text string | JSON_stringify js_value

type_synonym turn = "role \<times> turn_text"

datatype tool = ReadDirectory | CreateDynamicFile | GenerateProjectStructure | GenerateFileContent

text \<open>
  The state: the module variables \<^verbatim>\<open>contents\<close>, \<^verbatim>\<open>proposedStructure\<close>, \<^verbatim>\<open>projectType\<close>
  and \<^verbatim>\<open>projectName\<close>, the file system, and the variables local to one call of
  \<^verbatim>\<open>runAgent\<close> (the two request flags, \<^verbatim>\<open>updateIssue\<close>, \<^verbatim>\<open>updateFile\<close>). \<open>calls\<close> is not
  a variable of the program: it records, in order, every call of a tool function the
  driver makes.
\<close>

record state =
  contents :: "turn list"
  proposedStructure :: json
  projectType :: "string option"
  projectName :: "string option"
  files :: fs
  isUpdateRequest :: bool
  isExecutionRequest :: bool
  updateIssue :: "string option"
  updateFile :: "string option"
  calls :: "tool list"

definition initialState :: "fs \<Rightarrow> state" where
  "initialState fs =
     \<lparr>contents = [], proposedStructure = JArr [], projectType = None, projectName = None,
      files = fs, isUpdateRequest = False, isExecutionRequest = False,
      updateIssue = None, updateFile = None, calls = []\<rparr>"

text \<open>
  What the outside world supplies during one iteration of the loop: the backend's
  answers to \<^verbatim>\<open>generateContent\<close>, to \<^verbatim>\<open>generateProjectStructure\<close>, to a dispatched
  \<^verbatim>\<open>generateFileContent\<close> and to the \<^verbatim>\<open>generateFileContent\<close> of the update override, and
  the line the user types at the approval prompt.
\<close>

record env =
  reply :: fetch_outcome
  structureReply :: fetch_outcome
  contentReply :: fetch_outcome
  updateReply :: fetch_outcome
  answer :: string

text \<open>
  How a piece of the loop body ends: it goes on (\<open>Next\<close>), leaves the loop with
  \<^verbatim>\<open>break\<close>, or throws. \<open>Unmodelled\<close> marks the few inputs whose behaviour is not
  modelled (a promise that is not awaited, the conversion of a string to a number).
\<close>

datatype stop_reason =
    NoResponse
  | NotApproved
  | FinalResult
  | Caught js_error
  | Uncaught js_error
  | Unmodelled

datatype flow = Next | Break stop_reason | Throw js_error

text \<open>
  \<^verbatim>\<open>available_tools[key]\<close>: the four tools are the object's own properties; a key that
  names a property of \<^verbatim>\<open>Object.prototype\<close> finds that inherited property, which is truthy
  and has no \<^verbatim>\<open>fn\<close>.
\<close>

datatype registry_entry = OwnTool tool | Inherited

definition object_prototype_keys :: "string list" where
  "object_prototype_keys =
     [''constructor'', ''__defineGetter__'', ''__defineSetter__'', ''hasOwnProperty'',
      ''__lookupGetter__'', ''__lookupSetter__'', ''isPrototypeOf'', ''propertyIsEnumerable'',
      ''toString'', ''valueOf'', ''__proto__'', ''toLocaleString'']"

definition available_tools :: "string \<Rightarrow> registry_entry option" where
  "available_tools key =
     (if key = ''read_directory'' then Some (OwnTool ReadDirectory)
      else if key = ''create_dynamic_file'' then Some (OwnTool CreateDynamicFile)
      else if key = ''generate_project_structure'' then Some (OwnTool GenerateProjectStructure)
      else if key = ''generate_file_content'' then Some (OwnTool GenerateFileContent)
      else if key \<in> set object_prototype_keys then Some Inherited
      else None)"

text \<open>
  The property key a value is converted to. An array is the join of its elements with
  commas, \<^verbatim>\<open>null\<close> elements as empty strings. The text of a number is not computed
  (\<open>None\<close>): it holds a digit or is \<^verbatim>\<open>Infinity\<close>, and so does every key built from it,
  which therefore is no property of the registry.
\<close>

fun to_property_key :: "json \<Rightarrow> string option"
  and array_keys :: "json list \<Rightarrow> string list option" where
  "to_property_key (JStr s) = Some s"
| "to_property_key JNull = Some ''null''"
| "to_property_key (JBool b) = Some (if b then ''true'' else ''false'')"
| "to_property_key (JNum m e) = None"
| "to_property_key (JObj kvs) = Some ''[object Object]''"
| "to_property_key (JArr xs) = map_option (join_sep CHR '','') (array_keys xs)"
| "array_keys [] = Some []"
| "array_keys (x # xs) =
     (case (if x = JNull then Some [] else to_property_key x) of
        None \<Rightarrow> None
      | Some k \<Rightarrow> map_option (\<lambda>ks. k # ks) (array_keys xs))"

text \<open>
  \<^verbatim>\<open>available_tools[fn]\<close>: the conversion of \<^verbatim>\<open>fn\<close> to a property key throws, or the
  registry has no such property, or it has one, of its own or inherited.
\<close>

datatype lookup = KeyThrows | NoProperty | Property registry_entry

definition registryLookup :: "json \<Rightarrow> lookup" where
  "registryLookup fn =
     (if toString_throws fn then KeyThrows
      else (case to_property_key fn of
              None \<Rightarrow> NoProperty
            | Some key \<Rightarrow>
                (case available_tools key of
                   None \<Rightarrow> NoProperty
                 | Some entry \<Rightarrow> Property entry)))"

definition stepIs :: "json \<Rightarrow> string \<Rightarrow> bool" where
  "stepIs dataObj name = (js_prop dataObj ''step'' = Some (JStr name))"

definition nullish :: "json option \<Rightarrow> bool" where
  "nullish v = (v = None \<or> v = Some JNull)"

definition group :: "string list \<Rightarrow> nat \<Rightarrow> string" where
  "group gs i = (if i < length gs then gs ! i else [])"

definition pushTurn :: "turn \<Rightarrow> state \<Rightarrow> state" where
  "pushTurn t st = st\<lparr>contents := contents st @ [t]\<rparr>"

definition recordCall :: "tool \<Rightarrow> state \<Rightarrow> state" where
  "recordCall t st = st\<lparr>calls := calls st @ [t]\<rparr>"

text \<open>
  The first lines of the \<^verbatim>\<open>try\<close> block: the step and the content are printed, which
  throws when the reply parsed to \<^verbatim>\<open>null\<close> or one of the two cannot be converted to a
  string; then the step is appended to the log as a \<^verbatim>\<open>model\<close> turn.
\<close>

definition logStep :: "json \<Rightarrow> state \<Rightarrow> flow \<times> state" where
  "logStep dataObj st =
     (if dataObj = JNull \<or> interpolation_throws (js_prop dataObj ''step'')
         \<or> interpolation_throws (js_prop dataObj ''content'')
      then (Throw TypeError, st)
      else (Next, pushTurn (Model, JSON_stringify (ValJson dataObj)) st))"

text \<open>
  \<^verbatim>\<open>if (dataObj.step === 'initialization')\<close>: the request is classified by the words in
  the user's message, words of an update before words of an execution.
\<close>

definition initialization :: "string \<Rightarrow> json \<Rightarrow> state \<Rightarrow> flow \<times> state" where
  "initialization userMsg dataObj st =
     (if stepIs dataObj ''initialization'' then
        let lowerMsg = toLowerCase userMsg
        in if str_includes lowerMsg ''not working'' \<or> str_includes lowerMsg ''fix''
              \<or> str_includes lowerMsg ''update''
           then (Next, st\<lparr>isUpdateRequest := True, updateIssue := Some userMsg\<rparr>)
           else if str_includes lowerMsg ''run'' \<or> str_includes lowerMsg ''execute''
              \<or> str_includes lowerMsg ''start''
           then (Next, st\<lparr>isExecutionRequest := True\<rparr>)
           else (Next, st)
      else (Next, st))"

text \<open>
  The \<^verbatim>\<open>analyze\<close> step: \<^verbatim>\<open>dataObj.content.match\<close> throws unless the content is a string.
\<close>

definition analyze :: "json \<Rightarrow> state \<Rightarrow> flow \<times> state" where
  "analyze dataObj st =
     (if stepIs dataObj ''analyze'' then
        (case js_prop dataObj ''content'' of
           Some (JStr content) \<Rightarrow>
             let typeMatch = js_match content re_type;
                 nameMatch = (case js_match content re_name_it of
                                Some g \<Rightarrow> Some g
                              | None \<Rightarrow> js_match content re_found_project);
                 st1 = (case typeMatch of
                          Some g \<Rightarrow> st\<lparr>projectType := Some (group g 0)\<rparr>
                        | None \<Rightarrow> st);
                 st2 = (case nameMatch of
                          Some g \<Rightarrow> st1\<lparr>projectName := Some (group g 0)\<rparr>
                        | None \<Rightarrow> st1)
             in if isUpdateRequest st2 then
                  (case js_match content re_update_file of
                     Some g \<Rightarrow>
                       (Next, st2\<lparr>updateFile :=
                                Some (group g 0 @ ''/'' @ group g 1 @ ''.'' @ group g 2)\<rparr>)
                   | None \<Rightarrow> (Next, st2))
                else (Next, st2)
         | _ \<Rightarrow> (Throw TypeError, st))
      else (Next, st))"

text \<open>
  The tool calls of the dispatch. Each returns the value of \<^verbatim>\<open>functionResult\<close> with
  the new state (\<open>Inr\<close>), or the way the block is left (\<open>Inl\<close>).
\<close>

text \<open>
  \<^verbatim>\<open>readDirectory(dirPath)\<close> returns an object in both branches; its message is built
  from the path, also in the \<^verbatim>\<open>catch\<close> block, where a path that cannot be converted to a
  string makes the function throw.
\<close>

definition readDirectory :: "fs \<Rightarrow> json option \<Rightarrow> (js_error \<times> fs) + (fs \<times> js_value)" where
  "readDirectory fs dirPath =
     (if interpolation_throws dirPath then Inl (TypeError, ensureRootDir fs)
      else Inr (ensureRootDir fs, ValDirectory dirPath))"

definition callGenerateProjectStructure ::
    "env \<Rightarrow> json option \<Rightarrow> state \<Rightarrow> (flow \<times> state) + (js_value \<times> state)" where
  "callGenerateProjectStructure ev args st =
     (if nullish args then Inl (Throw TypeError, st)
      else
        let st1 = recordCall GenerateProjectStructure st
        in (case generateProjectStructure (structureReply ev)
                   (js_prop (the args) ''projectType'') (js_prop (the args) ''description'') of
              Inl e \<Rightarrow> Inl (Throw e, st1)
            | Inr functionResult \<Rightarrow>
                (case JSON_parse functionResult of
                   None \<Rightarrow> Inl (Throw SyntaxError, st1)
                 | Some parsedResult \<Rightarrow>
                     if parsedResult = JNull then Inl (Throw TypeError, st1)
                     else Inr (ValStringified parsedResult,
                               st1\<lparr>proposedStructure :=
                                     (if truthy (js_prop parsedResult ''structure'')
                                      then the (js_prop parsedResult ''structure'')
                                      else JArr [])\<rparr>))))"

definition callGenerateFileContent ::
    "env \<Rightarrow> json option \<Rightarrow> state \<Rightarrow> (flow \<times> state) + (js_value \<times> state)" where
  "callGenerateFileContent ev args st =
     (if nullish args \<or> interpolation_throws (js_prop (the args) ''filePath'')
      then Inl (Throw TypeError, st)
      else
        let st1 = recordCall GenerateFileContent st
        in (case generateFileContent (contentReply ev) (projectName st)
                   (js_prop (the args) ''filePath'') (js_prop (the args) ''projectType'')
                   (js_prop (the args) ''description'') of
              Inl e \<Rightarrow> Inl (Throw e, st1)
            | Inr v \<Rightarrow> Inr (ValJson v, st1)))"

definition callCreateDynamicFile :: "json \<Rightarrow> state \<Rightarrow> (flow \<times> state) + (string \<times> state)" where
  "callCreateDynamicFile arg st =
     (let st1 = recordCall CreateDynamicFile st
      in (case createDynamicFile (files st) arg of
            Inl (e, fs') \<Rightarrow> Inl (Throw e, st1\<lparr>files := fs'\<rparr>)
          | Inr (fs', r) \<Rightarrow> Inr (r, st1\<lparr>files := fs'\<rparr>)))"

text \<open>
  The loop over an array of arguments; \<^verbatim>\<open>arg.fileName\<close> is read for the progress
  message before the call, which throws when \<^verbatim>\<open>arg\<close> is \<^verbatim>\<open>null\<close> or the file name cannot be
  converted to a string.
\<close>

fun createFiles :: "json list \<Rightarrow> string list \<Rightarrow> state \<Rightarrow> (flow \<times> state) + (string list \<times> state)" where
  "createFiles [] results st = Inr (results, st)"
| "createFiles (arg # args) results st =
     (if arg = JNull \<or> interpolation_throws (js_prop arg ''fileName'')
      then Inl (Throw TypeError, st)
      else (case callCreateDynamicFile arg st of
              Inl r \<Rightarrow> Inl r
            | Inr (r, st') \<Rightarrow> createFiles args (results @ [r]) st'))"

definition callTool ::
    "env \<Rightarrow> json option \<Rightarrow> json option \<Rightarrow> tool \<Rightarrow> state \<Rightarrow> (flow \<times> state) + (js_value \<times> state)" where
  "callTool ev fn args t st =
     (if fn = Some (JStr ''generate_project_structure'') then callGenerateProjectStructure ev args st
      else if fn = Some (JStr ''generate_file_content'') then callGenerateFileContent ev args st
      else if fn = Some (JStr ''create_dynamic_file'') then
        (case args of
           Some (JArr items) \<Rightarrow>
             (case createFiles items [] st of
                Inl r \<Rightarrow> Inl r
              | Inr (results, st') \<Rightarrow> Inr (ValJson (JStr (join_sep (CHR 0x0A) results)), st'))
         | _ \<Rightarrow>
             if nullish args \<or> interpolation_throws (js_prop (the args) ''fileName'')
             then Inl (Throw TypeError, st)
             else (case callCreateDynamicFile (the args) st of
                     Inl r \<Rightarrow> Inl r
                   | Inr (r, st') \<Rightarrow> Inr (ValJson (JStr r), st')))
      else
        (case t of
           ReadDirectory \<Rightarrow>
             (case readDirectory (files st) args of
                Inl (e, fs') \<Rightarrow> Inl (Throw e, (recordCall ReadDirectory st)\<lparr>files := fs'\<rparr>)
              | Inr (fs', r) \<Rightarrow> Inr (r, (recordCall ReadDirectory st)\<lparr>files := fs'\<rparr>))
         | CreateDynamicFile \<Rightarrow>
             (case callCreateDynamicFile (case args of None \<Rightarrow> JNull | Some a \<Rightarrow> a) st of
                Inl r \<Rightarrow> Inl r
              | Inr (r, st') \<Rightarrow> Inr (ValJson (JStr r), st'))
         | _ \<Rightarrow> Inl (Break Unmodelled, st)))"

text \<open>
  \<^verbatim>\<open>if (dataObj.function && available_tools[dataObj.function]) { ... }\<close>: the call, then
  the result appended to the log as a \<^verbatim>\<open>user\<close> turn. The lookup throws when the function
  cannot be converted to a property key. With an inherited property \<^verbatim>\<open>toolFn\<close> is
  \<^verbatim>\<open>undefined\<close> and calling it throws.
\<close>

definition dispatch :: "env \<Rightarrow> json \<Rightarrow> state \<Rightarrow> flow \<times> state" where
  "dispatch ev dataObj st =
     (let fn = js_prop dataObj ''function'';
          args = js_prop dataObj ''args''
      in if \<not> truthy fn then (Next, st)
         else (case registryLookup (the fn) of
                 KeyThrows \<Rightarrow> (Throw TypeError, st)
               | NoProperty \<Rightarrow> (Next, st)
               | Property Inherited \<Rightarrow> (Throw TypeError, st)
               | Property (OwnTool t) \<Rightarrow>
                   (case callTool ev fn args t st of
                      Inl r \<Rightarrow> r
                    | Inr (functionResult, st') \<Rightarrow>
                        (Next, pushTurn (User, JSON_stringify functionResult) st'))))"

text \<open>
  \<^verbatim>\<open>proposedStructure.length > 0\<close>: the result of the comparison (\<open>Inr\<close>), or how the
  block is left. Reading the length of \<^verbatim>\<open>null\<close> throws; a number or a boolean has no
  length, and \<^verbatim>\<open>undefined > 0\<close> is false; an object answers with its member \<^verbatim>\<open>length\<close>,
  which is converted to a number: that throws for an object with a member \<^verbatim>\<open>toString\<close>,
  gives \<^verbatim>\<open>NaN\<close> for any other object, and is not modelled for a string or an array.
\<close>

definition lengthPositive :: "json \<Rightarrow> flow + bool" where
  "lengthPositive v =
     (case v of
        JNull \<Rightarrow> Inl (Throw TypeError)
      | JArr xs \<Rightarrow> Inr (xs \<noteq> [])
      | JStr s \<Rightarrow> Inr (s \<noteq> [])
      | JObj kvs \<Rightarrow>
          (case map_of kvs ''length'' of
             None \<Rightarrow> Inr False
           | Some (JNum m e) \<Rightarrow> Inr (m > 0)
           | Some (JBool b) \<Rightarrow> Inr b
           | Some JNull \<Rightarrow> Inr False
           | Some (JObj members) \<Rightarrow>
               if map_of members ''toString'' \<noteq> None then Inl (Throw TypeError) else Inr False
           | Some _ \<Rightarrow> Inl (Break Unmodelled))
      | _ \<Rightarrow> Inr False)"

text \<open>
  \<^verbatim>\<open>if (dataObj.step === 'generate_structure' && proposedStructure.length > 0 && ...)\<close>: the
  user is asked, and an answer that does not approve leaves the loop.
\<close>

definition approvalGate :: "env \<Rightarrow> json \<Rightarrow> state \<Rightarrow> flow \<times> state" where
  "approvalGate ev dataObj st =
     (if stepIs dataObj ''generate_structure'' then
        (case lengthPositive (proposedStructure st) of
           Inl f \<Rightarrow> (f, st)
         | Inr positive \<Rightarrow>
             if positive \<and> \<not> isUpdateRequest st \<and> \<not> isExecutionRequest st then
               (case presentStructure (proposedStructure st) (answer ev) of
                  Inl e \<Rightarrow> (Throw e, st)
                | Inr approved \<Rightarrow> if approved then (Next, st) else (Break NotApproved, st))
             else (Next, st))
      else (Next, st))"

text \<open>
  The update override of the \<^verbatim>\<open>generate_files\<close> step. It comes after the dispatch. The
  argument it hands to \<^verbatim>\<open>createDynamicFile\<close> is the array \<^verbatim>\<open>[{ fileName, content }]\<close>.
\<close>

definition updateOverride :: "env \<Rightarrow> string \<Rightarrow> json \<Rightarrow> state \<Rightarrow> flow \<times> state" where
  "updateOverride ev userMsg dataObj st =
     (if stepIs dataObj ''generate_files'' \<and> isUpdateRequest st
         \<and> (case updateFile st of None \<Rightarrow> False | Some f \<Rightarrow> f \<noteq> []) then
        let f = the (updateFile st);
            args = js_prop dataObj ''args'';
            declaredType = opt_chain args (\<lambda>a. js_prop a ''projectType'');
            pt = (if truthy declaredType then declaredType else Some (JStr ''HTML web app''));
            declared = opt_chain args (\<lambda>a. js_prop a ''description'');
            description = (if truthy declared then declared else Some (JStr userMsg));
            st1 = recordCall GenerateFileContent st
        in (case generateFileContent (updateReply ev) (projectName st) (Some (JStr f)) pt
                   description of
              Inl e \<Rightarrow> (Throw e, st1)
            | Inr content \<Rightarrow>
                (case callCreateDynamicFile
                        (JArr [JObj [(''fileName'', JStr f), (''content'', content)]]) st1 of
                   Inl r \<Rightarrow> r
                 | Inr (functionResult, st2) \<Rightarrow>
                     (Next, pushTurn (User, JSON_stringify (ValJson (JStr functionResult))) st2)))
      else (Next, st))"

text \<open>
  \<^verbatim>\<open>if (dataObj.step === 'final_result')\<close>: the module variables and the local ones are
  reset and the loop is left. Otherwise \<^verbatim>\<open>Proceed to next step\<close> is appended to the log.
\<close>

definition finalResult :: "json \<Rightarrow> state \<Rightarrow> flow \<times> state" where
  "finalResult dataObj st =
     (if stepIs dataObj ''final_result'' then
        (Break FinalResult,
         st\<lparr>proposedStructure := JArr [], projectType := None, projectName := None,
            isUpdateRequest := False, isExecutionRequest := False,
            updateIssue := None, updateFile := None\<rparr>)
      else (Next, st))"

definition proceed :: "state \<Rightarrow> flow \<times> state" where
  "proceed st = (Next, pushTurn (User, Text ''Proceed to next step'') st)"

text \<open>The pieces of the loop body run in order until one does not go on.\<close>

fun run_phases :: "(state \<Rightarrow> flow \<times> state) list \<Rightarrow> state \<Rightarrow> flow \<times> state" where
  "run_phases [] st = (Next, st)"
| "run_phases (p # ps) st =
     (case p st of
        (Next, st') \<Rightarrow> run_phases ps st'
      | r \<Rightarrow> r)"

text \<open>The body of the \<^verbatim>\<open>try\<close> block after \<^verbatim>\<open>JSON.parse\<close>.\<close>

definition processStep :: "env \<Rightarrow> string \<Rightarrow> json \<Rightarrow> state \<Rightarrow> flow \<times> state" where
  "processStep ev userMsg dataObj st =
     run_phases
       [logStep dataObj, initialization userMsg dataObj, analyze dataObj, dispatch ev dataObj,
        approvalGate ev dataObj, updateOverride ev userMsg dataObj, finalResult dataObj, proceed]
       st"

text \<open>
  The step reply parser: the three \<^verbatim>\<open>replace\<close> calls and \<^verbatim>\<open>trim\<close>, then \<^verbatim>\<open>JSON.parse\<close>.
\<close>

definition cleanReply :: "string \<Rightarrow> string" where
  "cleanReply response = trim (remove_all (stripFences response) re_newline_indent)"

definition parseStepReply :: "string \<Rightarrow> json option" where
  "parseStepReply response = JSON_parse (cleanReply response)"

text \<open>
  One iteration of \<^verbatim>\<open>while (true)\<close>. A truthy response that is not a string has no
  \<^verbatim>\<open>replace\<close> method; that \<^verbatim>\<open>TypeError\<close> is thrown before the \<^verbatim>\<open>try\<close> block. The result is
  \<open>Next\<close> when the loop goes round again and \<open>Break\<close> when it ends.
\<close>

definition iteration :: "string \<Rightarrow> env \<Rightarrow> state \<Rightarrow> flow \<times> state" where
  "iteration userMsg ev st =
     (let response = generateContent (reply ev)
      in if \<not> truthy response then (Break NoResponse, st)
         else (case response of
                 Some (JStr text) \<Rightarrow>
                   (case parseStepReply text of
                      None \<Rightarrow> (Break (Caught SyntaxError), st)
                    | Some dataObj \<Rightarrow>
                        (case processStep ev userMsg dataObj st of
                           (Throw e, st') \<Rightarrow> (Break (Caught e), st')
                         | r \<Rightarrow> r))
               | _ \<Rightarrow> (Break (Uncaught TypeError), st)))"

text \<open>
  The loop over what the outside world supplies, one \<open>env\<close> for each iteration. The
  result is \<open>Next\<close> when the run is still going on after the last of them.
\<close>

fun runLoop :: "string \<Rightarrow> env list \<Rightarrow> state \<Rightarrow> flow \<times> state" where
  "runLoop userMsg [] st = (Next, st)"
| "runLoop userMsg (ev # evs) st =
     (case iteration userMsg ev st of
        (Next, st') \<Rightarrow> runLoop userMsg evs st'
      | r \<Rightarrow> r)"

text \<open>
  \<^verbatim>\<open>runAgent(userMsg)\<close>: the request is appended to the log, the four local variables
  are declared afresh, and the loop runs.
\<close>

definition startRun :: "string \<Rightarrow> state \<Rightarrow> state" where
  "startRun userMsg st =
     (pushTurn (User, Text userMsg) st)
       \<lparr>isUpdateRequest := False, isExecutionRequest := False,
        updateIssue := None, updateFile := None\<rparr>"

definition runAgent :: "string \<Rightarrow> env list \<Rightarrow> state \<Rightarrow> flow \<times> state" where
  "runAgent userMsg evs st = runLoop userMsg evs (startRun userMsg st)"

section \<open>Notions used to state the properties\<close>


text \<open>
  \<open>keepsContext st st'\<close>: the two states agree on the log and on everything the driver
  has learnt about the request; they may differ in the file system, the proposed
  structure and the record of calls.
\<close>

definition keepsContext :: "state \<Rightarrow> state \<Rightarrow> bool" where
  "keepsContext st st' =
     (contents st' = contents st \<and> projectType st' = projectType st
      \<and> projectName st' = projectName st \<and> isUpdateRequest st' = isUpdateRequest st
      \<and> isExecutionRequest st' = isExecutionRequest st \<and> updateIssue st' = updateIssue st
      \<and> updateFile st' = updateFile st)"

text \<open>JSON text of an object whose \<^verbatim>\<open>structure\<close> member is a list.\<close>

definition hasStructureField :: "string \<Rightarrow> bool" where
  "hasStructureField s =
     (case JSON_parse s of
        Some (JObj kvs) \<Rightarrow> (case map_of kvs ''structure'' of Some (JArr paths) \<Rightarrow> True | _ \<Rightarrow> False)
      | _ \<Rightarrow> False)"

text \<open>An environment in which the backend answers \<^verbatim>\<open>generateContent\<close> with the given text.\<close>

definition replyEnv :: "string \<Rightarrow> env" where
  "replyEnv t =
     \<lparr>reply = BodyJson (replyBody (JStr t)), structureReply = FetchThrows,
      contentReply = FetchThrows, updateReply = FetchThrows, answer = []\<rparr>"

text \<open>
  Scenario A: a request for a new project, the backend's \<^verbatim>\<open>generate_structure\<close> step that
  asks for \<^verbatim>\<open>generate_project_structure\<close>, a structure of one path, and the user's answer
  \<^verbatim>\<open>no\<close>; then a \<^verbatim>\<open>generate_files\<close> step the backend would send next.
\<close>

definition scenarioA_request :: string where
  "scenarioA_request = ''Create a to-do list in HTML''"

definition scenarioA_structure_step :: string where
  \<open>scenarioA_structure_step =
     ''{"step": "generate_structure", "content": "Generating structure for the to-do list app.", "function": "generate_project_structure", "args": {"projectType": "HTML web app", "description": "creates a to-do list"}}''\<close>


definition scenarioA_structure_env :: env where
  \<open>scenarioA_structure_env =
     (replyEnv scenarioA_structure_step)
       \<lparr>structureReply := BodyJson (replyBody (JStr ''{"structure": ["chaicode/todo-app/index.html"]}'')),
        answer := ''no''\<rparr>\<close>

definition scenarioA_files_env :: env where
  \<open>scenarioA_files_env =
     replyEnv ''{"step": "generate_files", "content": "Creating files.", "function": "create_dynamic_file", "args": [{"fileName": "todo-app/index.html", "content": "<html></html>"}]}''\<close>

text \<open>
  Scenario B: a request with the word \<^verbatim>\<open>fix\<close>, the backend's \<^verbatim>\<open>initialization\<close> step, its
  \<^verbatim>\<open>analyze\<close> step with the content of the scenario, and a \<^verbatim>\<open>generate_files\<close> step that
  asks for \<^verbatim>\<open>create_dynamic_file\<close> on another file.
\<close>

definition scenarioB_request :: string where
  "scenarioB_request = ''please fix the css''"

definition scenarioB_content :: string where
  "scenarioB_content = ''Found project 'todo-app' in 'root' with a style.css.''"

definition scenarioB_init_record :: json where
  "scenarioB_init_record =
     JObj [(''step'', JStr ''initialization''), (''content'', JStr ''I will fix the project.''),
           (''function'', JNull), (''args'', JNull)]"

definition scenarioB_analyze_record :: json where
  "scenarioB_analyze_record =
     JObj [(''step'', JStr ''analyze''), (''content'', JStr scenarioB_content),
           (''function'', JStr ''read_directory''), (''args'', JStr ''chaicode'')]"

definition scenarioB_files_record :: json where
  "scenarioB_files_record =
     JObj [(''step'', JStr ''generate_files''), (''content'', JStr ''Fixing the file.''),
           (''function'', JStr ''create_dynamic_file''),
           (''args'', JArr [JObj [(''fileName'', JStr ''todo-app/notes.txt''),
                                  (''content'', JStr ''fixed'')]])]"

definition scenarioB_init_step :: string where
  \<open>scenarioB_init_step =
     ''{"step": "initialization", "content": "I will fix the project.", "function": null, "args": null}''\<close>

definition scenarioB_analyze_step :: string where
  \<open>scenarioB_analyze_step =
     ''{"step": "analyze", "content": "Found project 'todo-app' in 'root' with a style.css.", "function": "read_directory", "args": "chaicode"}''\<close>

definition scenarioB_files_step :: string where
  \<open>scenarioB_files_step =
     ''{"step": "generate_files", "content": "Fixing the file.", "function": "create_dynamic_file", "args": [{"fileName": "todo-app/notes.txt", "content": "fixed"}]}''\<close>

definition scenarioB_envs :: "env list" where
  "scenarioB_envs =
     [replyEnv scenarioB_init_step, replyEnv scenarioB_analyze_step, replyEnv scenarioB_files_step]"



definition inherited_step :: string where
  \<open>inherited_step =
     ''{"step": "analyze", "content": "The project is an HTML app.", "function": "toString", "args": null}''\<close>

definition name_step :: string where
  \<open>name_step =
     ''{"step": "analyze", "content": "The project is an HTML to-do list app. I'll name it 'todo-app'.", "function": null, "args": null}''\<close>

definition bare_structure_step :: string where
  \<open>bare_structure_step =
     ''{"step": "generate_structure", "content": "Proposing the structure.", "function": null, "args": null}''\<close>


section \<open>Properties of the path confinement\<close>

lemma split_on_nonempty: "split_on sep s \<noteq> []"
  by (induction s) (auto split: list.splits)

lemma split_on_append:
  "split_on sep (a @ sep # b) = split_on sep a @ split_on sep b"
  by (induction a) (auto split: list.splits simp: split_on_nonempty)

lemma split_on_no_sep: "sep \<notin> set s \<Longrightarrow> split_on sep s = [s]"
  by (induction s) auto

lemma split_on_elems: "x \<in> set (split_on sep s) \<Longrightarrow> sep \<notin> set x"
  by (induction s arbitrary: x) (auto split: if_splits list.splits)

lemma split_on_join:
  "xs \<noteq> [] \<Longrightarrow> \<forall>x \<in> set xs. sep \<notin> set x \<Longrightarrow> split_on sep (join_sep sep xs) = xs"
  by (induction sep xs rule: join_sep.induct) (auto simp: split_on_append split_on_no_sep)

lemma normalizeString_no_dotdot:
  "''..'' \<notin> set ss \<Longrightarrow>
   normalizeString a res ss = rev res @ filter (\<lambda>s. s \<noteq> [] \<and> s \<noteq> ''.'') ss"
  by (induction ss arbitrary: res) auto

lemma segments_append:
  "segments (a @ CHR ''/'' # b) = segments a @ segments b"
  by (simp add: segments_def split_on_append)

lemma segments_root_root:
  "t = [] \<or> hd t = CHR ''/'' \<Longrightarrow>
   take 2 (segments (''chaicode/chaicode'' @ t)) = [''chaicode'', ''chaicode'']"
proof (cases t)
  case Nil
  then show ?thesis by (simp add: segments_def)
next
  case (Cons c t')
  assume "t = [] \<or> hd t = CHR ''/''"
  with Cons have c: "c = CHR ''/''" by simp
  have "segments (''chaicode/chaicode'' @ CHR ''/'' # t') =
      segments ''chaicode/chaicode'' @ segments t'"
    by (rule segments_append)
  moreover have "segments ''chaicode/chaicode'' = [''chaicode'', ''chaicode'']"
    by (simp add: segments_def)
  ultimately show ?thesis using Cons c by simp
qed

lemma join_sep_root_root:
  "join_sep CHR ''/'' (''chaicode'' # ''chaicode'' # ys) =
     ''chaicode/chaicode'' @ (if ys = [] then [] else CHR ''/'' # join_sep CHR ''/'' ys)"
  by (cases ys) simp_all

lemma pathParts_elems:
  "x \<in> set (pathParts p) \<Longrightarrow> x \<noteq> [] \<and> CHR ''/'' \<notin> set x"
  by (auto simp: pathParts_def dest: split_on_elems)

lemma normalizePath_nested:
  assumes parts: "pathParts p = ROOT_DIR # rest" and nodd: "''..'' \<notin> set rest"
  shows "take 2 (segments (normalizePath p)) = [ROOT_DIR, ROOT_DIR]"
proof -
  let ?xs = "''chaicode'' # ''chaicode'' # rest"
  define joined where "joined = join_sep CHR ''/'' ?xs"
  have elems: "\<forall>x \<in> set rest. x \<noteq> [] \<and> CHR ''/'' \<notin> set x"
    using pathParts_elems[of _ p] parts by auto
  have idx: "indexOf (pathParts p) ''chaicode'' = Some 0"
    using parts by (simp add: ROOT_DIR_def)
  have flt: "filter (\<lambda>a. a \<noteq> []) ?xs = ?xs"
    using elems by (simp add: filter_id_conv)
  have jne: "joined \<noteq> []" and hdj: "hd joined \<noteq> CHR ''/''"
    by (simp_all add: joined_def join_sep_root_root)
  have spl: "split_on CHR ''/'' joined = ?xs"
    unfolding joined_def using elems by (intro split_on_join) auto
  have ns: "normalizeString True [] ?xs =
      ''chaicode'' # ''chaicode'' # filter (\<lambda>s. s \<noteq> [] \<and> s \<noteq> ''.'') rest"
    using nodd by (subst normalizeString_no_dotdot) auto
  define t where "t = (if filter (\<lambda>s. s \<noteq> [] \<and> s \<noteq> ''.'') rest = [] then []
       else CHR ''/'' # join_sep CHR ''/'' (filter (\<lambda>s. s \<noteq> [] \<and> s \<noteq> ''.'') rest))
      @ (if last joined = CHR ''/'' then ''/'' else [])"
  have nn: "join_sep CHR ''/'' (normalizeString True [] (split_on CHR ''/'' joined)) =
      ''chaicode/chaicode'' @ (if filter (\<lambda>s. s \<noteq> [] \<and> s \<noteq> ''.'') rest = [] then []
       else CHR ''/'' # join_sep CHR ''/'' (filter (\<lambda>s. s \<noteq> [] \<and> s \<noteq> ''.'') rest))"
    by (simp only: spl ns join_sep_root_root)
  have np: "posix_normalize joined = ''chaicode/chaicode'' @ t"
    using jne hdj by (simp add: posix_normalize_def Let_def nn t_def)
  have t: "t = [] \<or> hd t = CHR ''/''"
    by (simp add: t_def)
  have pj: "posix_join ?xs = posix_normalize joined"
    unfolding posix_join_def flt joined_def[symmetric] using jne by (simp add: Let_def)
  have "normalizePath p = replaceBackslashes (posix_join ?xs)"
    using parts idx unfolding ROOT_DIR_def by (simp add: normalizePath_def Let_def ROOT_DIR_def)
  then have "normalizePath p = replaceBackslashes (posix_normalize joined)"
    by (simp only: pj)
  also have "\<dots> = ''chaicode/chaicode'' @ replaceBackslashes t"
    by (simp add: np replaceBackslashes_def)
  finally have res: "normalizePath p = ''chaicode/chaicode'' @ replaceBackslashes t" .
  have "replaceBackslashes t = [] \<or> hd (replaceBackslashes t) = CHR ''/''"
    using t by (cases t) (auto simp: replaceBackslashes_def)
  then have "take 2 (segments (''chaicode/chaicode'' @ replaceBackslashes t)) =
      [''chaicode'', ''chaicode'']"
    by (rule segments_root_root)
  then show ?thesis by (simp only: res ROOT_DIR_def)
qed

text \<open>
  C1. The claim: for every input path, \<^verbatim>\<open>normalizePath\<close> returns a path whose first segment
  is the root \<^verbatim>\<open>chaicode\<close>. The code prefixes the root and then lets \<^verbatim>\<open>path.join\<close> normalise
  the result, so a leading \<^verbatim>\<open>..\<close> of the input cancels the root: \<^verbatim>\<open>../x\<close> is mapped to
  \<^verbatim>\<open>x\<close>, and \<^verbatim>\<open>../../etc/passwd\<close> to \<^verbatim>\<open>../etc/passwd\<close>, outside the root.
\<close>

theorem normalizePath_escapes_root:
  "normalizePath ''../x'' = ''x''
   \<and> hd (segments (normalizePath ''../x'')) \<noteq> ROOT_DIR
   \<and> normalizePath ''../../etc/passwd'' = ''../etc/passwd''"
  by code_simp

text \<open>
  C9, as stated: every input path whose first non-empty segment is \<^verbatim>\<open>chaicode\<close> is mapped
  to a path whose first two segments are both \<^verbatim>\<open>chaicode\<close>. It fails where
  \<^verbatim>\<open>path.normalize\<close> cancels that segment: \<^verbatim>\<open>chaicode/../x\<close> is mapped to \<^verbatim>\<open>chaicode/x\<close>.
\<close>

theorem normalizePath_reprefix_counterexample:
  "hd (segments ''chaicode/../x'') = ROOT_DIR
   \<and> normalizePath ''chaicode/../x'' = ''chaicode/x''
   \<and> take 2 (segments (normalizePath ''chaicode/../x'')) \<noteq> [ROOT_DIR, ROOT_DIR]"
  by code_simp

text \<open>
  C9, amended: whenever the segment list \<^verbatim>\<open>parts\<close> that \<^verbatim>\<open>normalizePath\<close> computes from its
  input (after \<^verbatim>\<open>path.normalize\<close>, with backslashes turned into slashes and empty segments
  dropped) starts with \<^verbatim>\<open>chaicode\<close> and holds no \<^verbatim>\<open>..\<close> segment, the root is prefixed again
  and the first two segments of the result are both \<^verbatim>\<open>chaicode\<close>; \<^verbatim>\<open>chaicode/x\<close> is mapped
  to \<^verbatim>\<open>chaicode/chaicode/x\<close>, and \<^verbatim>\<open>normalizePath\<close> is not idempotent.
\<close>

theorem normalizePath_reprefixes_root:
  "(pathParts p = ROOT_DIR # rest \<and> ''..'' \<notin> set rest \<longrightarrow>
      take 2 (segments (normalizePath p)) = [ROOT_DIR, ROOT_DIR])
   \<and> normalizePath ''chaicode/x'' = ''chaicode/chaicode/x''
   \<and> normalizePath (normalizePath ''chaicode/x'') \<noteq> normalizePath ''chaicode/x''"
proof -
  have a: "normalizePath ''chaicode/x'' = ''chaicode/chaicode/x''" by code_simp
  have b: "normalizePath ''chaicode/chaicode/x'' = ''chaicode/chaicode/chaicode/x''" by code_simp
  show ?thesis using normalizePath_nested[of p rest] a b by simp
qed

theorem normalizePath_reprefixes_root_witness:
  "pathParts ''chaicode/x'' = ROOT_DIR # [''x''] \<and> ''..'' \<notin> set [''x'']
   \<and> take 2 (segments (normalizePath ''chaicode/x'')) = [ROOT_DIR, ROOT_DIR]"
proof -
  have p: "pathParts ''chaicode/x'' = ROOT_DIR # [''x'']" by code_simp
  have d: "''..'' \<notin> set [''x'']" by simp
  show ?thesis
    using normalizePath_reprefixes_root[of "''chaicode/x''" "[''x'']"] p d by blast
qed

section \<open>Properties of the file materializer\<close>






































section \<open>Properties of the structure generator\<close>

lemma JSON_parse_empty_object: "JSON_parse ''{}'' = Some (JObj [])"
  by code_simp

lemma interpolation_throws_simps [simp]:
  "interpolation_throws None = False"
  "interpolation_throws (Some (JStr s)) = False"
  "interpolation_throws (Some JNull) = False"
  "interpolation_throws (Some (JBool b)) = False"
  "interpolation_throws (Some (JNum m k)) = False"
  by (simp_all add: interpolation_throws_def)

text \<open>
  The prompt is built outside the \<^verbatim>\<open>try\<close> block: the function raises for an argument
  that is an object with a member \<^verbatim>\<open>toString\<close>.
\<close>

lemma generateProjectStructure_raises:
  "generateProjectStructure r (Some (JObj [(''toString'', v)])) d = Inl TypeError"
  by (simp add: generateProjectStructure_def interpolation_throws_def)

text \<open>
  C8, amended: for a project type and a description that can be converted to text for the
  prompt (every string can), \<^verbatim>\<open>generateProjectStructure\<close> never raises and always returns
  JSON text: the empty object \<^verbatim>\<open>{}\<close> when the call fails (network failure, a status that is
  not ok, a body that is not JSON or is \<^verbatim>\<open>null\<close>) or the cleaned text does not parse, and
  otherwise the backend's text with the fences and surrounding white space removed,
  whatever JSON value it is: that it is an object with a \<^verbatim>\<open>structure\<close> list is not checked.
\<close>

theorem generateProjectStructure_returns_json_text:
  assumes "\<not> interpolation_throws pt" and "\<not> interpolation_throws d"
  shows "(\<exists>s v. generateProjectStructure r pt d = Inr s \<and> JSON_parse s = Some v)
   \<and> (candidateText r = Inl e \<longrightarrow> generateProjectStructure r pt d = Inr ''{}'')
   \<and> (candidateText r = Inr (Some (JStr raw)) \<and> raw \<noteq> [] \<longrightarrow>
        generateProjectStructure r pt d =
          Inr (if JSON_parse (trim (stripFences raw)) = None then ''{}''
               else trim (stripFences raw)))"
proof -
  have a: "\<exists>s v. generateProjectStructure r pt d = Inr s \<and> JSON_parse s = Some v"
    using assms
    by (auto simp: generateProjectStructure_def Let_def JSON_parse_empty_object
        split: sum.splits option.splits json.splits)
  have b: "candidateText r = Inl e \<longrightarrow> generateProjectStructure r pt d = Inr ''{}''"
    using assms by (simp add: generateProjectStructure_def)
  have c: "candidateText r = Inr (Some (JStr raw)) \<and> raw \<noteq> [] \<longrightarrow>
        generateProjectStructure r pt d =
          Inr (if JSON_parse (trim (stripFences raw)) = None then ''{}''
               else trim (stripFences raw))"
    using assms by (auto simp: generateProjectStructure_def Let_def split: option.splits)
  from a b c show ?thesis by blast
qed

theorem generateProjectStructure_returns_json_text_witness:
  \<open>\<not> interpolation_throws (Some (JStr ''HTML web app''))
   \<and> \<not> interpolation_throws (Some (JStr ''creates a to-do list''))
   \<and> candidateText FetchThrows = Inl NetworkError
   \<and> generateProjectStructure FetchThrows (Some (JStr ''HTML web app''))
        (Some (JStr ''creates a to-do list'')) = Inr ''{}''
   \<and> candidateText (BodyJson (replyBody (JStr ''{"structure": ["chaicode/app/index.html"]}'')))
        = Inr (Some (JStr ''{"structure": ["chaicode/app/index.html"]}''))
   \<and> generateProjectStructure
        (BodyJson (replyBody (JStr ''{"structure": ["chaicode/app/index.html"]}'')))
        (Some (JStr ''HTML web app'')) (Some (JStr ''creates a to-do list''))
        = Inr ''{"structure": ["chaicode/app/index.html"]}''
   \<and> JSON_parse ''{"structure": ["chaicode/app/index.html"]}''
        = Some (JObj [(''structure'', JArr [JStr ''chaicode/app/index.html''])])\<close>
proof -
  let ?raw = \<open>''{"structure": ["chaicode/app/index.html"]}''\<close>
  let ?r = "BodyJson (replyBody (JStr ?raw))"
  let ?pt = "Some (JStr ''HTML web app'')"
  let ?d = "Some (JStr ''creates a to-do list'')"
  have h1: "\<not> interpolation_throws ?pt" by (simp add: interpolation_throws_def)
  have h2: "\<not> interpolation_throws ?d" by (simp add: interpolation_throws_def)
  have c1: "candidateText FetchThrows = Inl NetworkError"
    by (simp add: candidateText_def)
  have c2: "candidateText ?r = Inr (Some (JStr ?raw))"
    by (simp add: candidateText_def replyBody_def)
  have ne: "?raw \<noteq> []" by simp
  have cl: "trim (stripFences ?raw) = ?raw" by code_simp
  have ps: "JSON_parse ?raw = Some (JObj [(''structure'', JArr [JStr ''chaicode/app/index.html''])])"
    by code_simp
  from generateProjectStructure_returns_json_text[OF h1 h2, of FetchThrows NetworkError ?raw] c1
  have g1: "generateProjectStructure FetchThrows ?pt ?d = Inr ''{}''" by blast
  from generateProjectStructure_returns_json_text[OF h1 h2, of ?r NetworkError ?raw] c2 ne
  have "generateProjectStructure ?r ?pt ?d =
      Inr (if JSON_parse (trim (stripFences ?raw)) = None then ''{}'' else trim (stripFences ?raw))"
    by blast
  then have g2: "generateProjectStructure ?r ?pt ?d = Inr ?raw"
    by (simp only: cl ps) simp
  from h1 h2 c1 g1 c2 g2 ps show ?thesis by blast
qed

text \<open>
  C8, as stated (the result is an object with a \<^verbatim>\<open>structure\<close> field, or \<^verbatim>\<open>{}\<close>): when the
  backend answers with a bare list, the list is returned.
\<close>

theorem generateProjectStructure_shape_counterexample:
  \<open>generateProjectStructure (BodyJson (replyBody (JStr ''["index.html"]''))) None None
     = Inr ''["index.html"]''
   \<and> \<not> hasStructureField ''["index.html"]''
   \<and> ''["index.html"]'' \<noteq> ''{}''\<close>
  by code_simp

section \<open>Properties of the driver\<close>

lemma keepsContext_refl: "keepsContext st st"
  by (simp add: keepsContext_def)

lemma keepsContext_trans: "keepsContext a b \<Longrightarrow> keepsContext b c \<Longrightarrow> keepsContext a c"
  by (simp add: keepsContext_def)

lemma callCreateDynamicFile_Inl:
  "callCreateDynamicFile arg st = Inl (f, st') \<Longrightarrow> keepsContext st st' \<and> (\<exists>e. f = Throw e)"
  by (auto simp: callCreateDynamicFile_def Let_def keepsContext_def recordCall_def
      split: sum.splits)

lemma callCreateDynamicFile_Inr:
  "callCreateDynamicFile arg st = Inr (r, st') \<Longrightarrow>
     keepsContext st st' \<and> calls st' = calls st @ [CreateDynamicFile]"
  by (auto simp: callCreateDynamicFile_def Let_def keepsContext_def recordCall_def
      split: sum.splits)

lemma createFiles_Inl:
  "createFiles items rs st = Inl (f, st') \<Longrightarrow> keepsContext st st' \<and> (\<exists>e. f = Throw e)"
proof (induction items arbitrary: rs st)
  case Nil
  then show ?case by simp
next
  case (Cons a items)
  show ?case
  proof (cases "a = JNull \<or> interpolation_throws (js_prop a ''fileName'')")
    case True
    with Cons.prems show ?thesis by (auto simp: keepsContext_refl)
  next
    case False
    show ?thesis
    proof (cases "callCreateDynamicFile a st")
      case (Inl x)
      with Cons.prems False callCreateDynamicFile_Inl[of a st f st'] show ?thesis by simp
    next
      case (Inr y)
      obtain r s1 where y: "y = (r, s1)" by (cases y)
      with Inr Cons.prems False have "createFiles items (rs @ [r]) s1 = Inl (f, st')" by simp
      from Cons.IH[OF this] callCreateDynamicFile_Inr[of a st r s1] Inr y
      show ?thesis by (auto intro: keepsContext_trans)
    qed
  qed
qed

lemma createFiles_Inr:
  "createFiles items rs st = Inr (rs', st') \<Longrightarrow> keepsContext st st'"
proof (induction items arbitrary: rs st)
  case Nil
  then show ?case by (simp add: keepsContext_refl)
next
  case (Cons a items)
  from Cons.prems have nn: "\<not> (a = JNull \<or> interpolation_throws (js_prop a ''fileName''))"
    by (auto split: if_splits)
  from Cons.prems nn obtain r s1 where c: "callCreateDynamicFile a st = Inr (r, s1)"
    and rest: "createFiles items (rs @ [r]) s1 = Inr (rs', st')"
    by (auto split: sum.splits)
  from Cons.IH[OF rest] callCreateDynamicFile_Inr[OF c]
  show ?case by (auto intro: keepsContext_trans)
qed

lemma callGenerateProjectStructure_Inl:
  "callGenerateProjectStructure ev args st = Inl (f, st') \<Longrightarrow>
     keepsContext st st' \<and> (\<exists>e. f = Throw e)"
  by (auto simp: callGenerateProjectStructure_def Let_def keepsContext_def recordCall_def
      split: if_splits option.splits sum.splits)

lemma callGenerateProjectStructure_Inr:
  "callGenerateProjectStructure ev args st = Inr (r, st') \<Longrightarrow> keepsContext st st'"
  by (auto simp: callGenerateProjectStructure_def Let_def keepsContext_def recordCall_def
      split: if_splits option.splits sum.splits)

lemma callGenerateFileContent_Inl:
  "callGenerateFileContent ev args st = Inl (f, st') \<Longrightarrow>
     keepsContext st st' \<and> (\<exists>e. f = Throw e)"
  by (auto simp: callGenerateFileContent_def Let_def keepsContext_def recordCall_def
      split: if_splits sum.splits)

lemma callGenerateFileContent_Inr:
  "callGenerateFileContent ev args st = Inr (r, st') \<Longrightarrow> keepsContext st st'"
  by (auto simp: callGenerateFileContent_def Let_def keepsContext_def recordCall_def
      split: if_splits sum.splits)

lemma callTool_Inl:
  assumes "callTool ev fn args t st = Inl (f, st')"
  shows "keepsContext st st' \<and> ((\<exists>e. f = Throw e) \<or> f = Break Unmodelled)"
proof -
  consider (gps) "fn = Some (JStr ''generate_project_structure'')"
    | (gfc) "fn \<noteq> Some (JStr ''generate_project_structure'')"
            "fn = Some (JStr ''generate_file_content'')"
    | (cdf) "fn \<noteq> Some (JStr ''generate_project_structure'')"
            "fn \<noteq> Some (JStr ''generate_file_content'')"
            "fn = Some (JStr ''create_dynamic_file'')"
    | (other) "fn \<noteq> Some (JStr ''generate_project_structure'')"
            "fn \<noteq> Some (JStr ''generate_file_content'')"
            "fn \<noteq> Some (JStr ''create_dynamic_file'')"
    by blast
  then show ?thesis
  proof cases
    case gps
    with assms callGenerateProjectStructure_Inl[of ev args st f st'] show ?thesis
      by (simp add: callTool_def)
  next
    case gfc
    with assms callGenerateFileContent_Inl[of ev args st f st'] show ?thesis
      by (simp add: callTool_def)
  next
    case cdf
    with assms show ?thesis
      by (auto simp: callTool_def keepsContext_refl split: option.splits json.splits sum.splits
          if_splits dest: createFiles_Inl callCreateDynamicFile_Inl)
  next
    case other
    with assms show ?thesis
      by (auto simp: callTool_def keepsContext_refl readDirectory_def keepsContext_def
          recordCall_def split: tool.splits sum.splits if_splits
          dest: callCreateDynamicFile_Inl)
  qed
qed

lemma callTool_Inr:
  assumes "callTool ev fn args t st = Inr (r, st')"
  shows "keepsContext st st'"
proof -
  consider (gps) "fn = Some (JStr ''generate_project_structure'')"
    | (gfc) "fn \<noteq> Some (JStr ''generate_project_structure'')"
            "fn = Some (JStr ''generate_file_content'')"
    | (cdf) "fn \<noteq> Some (JStr ''generate_project_structure'')"
            "fn \<noteq> Some (JStr ''generate_file_content'')"
            "fn = Some (JStr ''create_dynamic_file'')"
    | (other) "fn \<noteq> Some (JStr ''generate_project_structure'')"
            "fn \<noteq> Some (JStr ''generate_file_content'')"
            "fn \<noteq> Some (JStr ''create_dynamic_file'')"
    by blast
  then show ?thesis
  proof cases
    case gps
    with assms callGenerateProjectStructure_Inr[of ev args st r st'] show ?thesis
      by (simp add: callTool_def)
  next
    case gfc
    with assms callGenerateFileContent_Inr[of ev args st r st'] show ?thesis
      by (simp add: callTool_def)
  next
    case cdf
    with assms show ?thesis
      by (auto simp: callTool_def split: option.splits json.splits sum.splits if_splits
          dest: createFiles_Inr callCreateDynamicFile_Inr)
  next
    case other
    with assms show ?thesis
      by (auto simp: callTool_def readDirectory_def keepsContext_def recordCall_def
          split: tool.splits sum.splits if_splits dest: callCreateDynamicFile_Inr)
  qed
qed

text \<open>What the dispatch can do to the flow and to the state.\<close>

lemma dispatch_cases:
  assumes "dispatch ev dataObj st = (f, st')"
  shows "(f = Next \<and> st' = st)
       \<or> (f = Next \<and> (\<exists>r s. keepsContext st s \<and> st' = pushTurn (User, JSON_stringify r) s))
       \<or> (((\<exists>e. f = Throw e) \<or> f = Break Unmodelled) \<and> keepsContext st st')"
proof (cases "truthy (js_prop dataObj ''function'')")
  case False
  with assms show ?thesis by (simp add: dispatch_def)
next
  case True
  show ?thesis
  proof (cases "registryLookup (the (js_prop dataObj ''function''))")
    case KeyThrows
    with assms True show ?thesis by (auto simp: dispatch_def keepsContext_refl)
  next
    case NoProperty
    with assms True show ?thesis by (simp add: dispatch_def)
  next
    case (Property entry)
    note Some = Property
    show ?thesis
    proof (cases entry)
      case Inherited
      with assms True Some show ?thesis by (auto simp: dispatch_def keepsContext_refl)
    next
      case (OwnTool t)
      show ?thesis
      proof (cases "callTool ev (js_prop dataObj ''function'') (js_prop dataObj ''args'') t st")
        case (Inl x)
        obtain f0 s0 where x: "x = (f0, s0)" by (cases x)
        with assms True Some OwnTool Inl have "f = f0" "st' = s0"
          by (simp_all add: dispatch_def)
        with callTool_Inl[of ev _ _ t st f0 s0] Inl x show ?thesis by simp
      next
        case (Inr y)
        obtain r s where y: "y = (r, s)" by (cases y)
        with assms True Some OwnTool Inr
        have "f = Next" "st' = pushTurn (User, JSON_stringify r) s" by (simp_all add: dispatch_def)
        with callTool_Inr[of ev _ _ t st r s] Inr y show ?thesis by blast
      qed
    qed
  qed
qed

text \<open>What a step that is not of a given kind leaves alone.\<close>

lemma stepIs_unique: "stepIs d a \<Longrightarrow> a \<noteq> b \<Longrightarrow> \<not> stepIs d b"
  by (simp add: stepIs_def)

lemma stepIs_not_null: "stepIs d a \<Longrightarrow> d \<noteq> JNull"
  by (auto simp: stepIs_def)

lemma stepIs_printed: "stepIs d a \<Longrightarrow> \<not> interpolation_throws (js_prop d ''step'')"
  by (auto simp: stepIs_def)

lemma dispatch_keeps:
  assumes "dispatch ev d st = (f, st')"
  shows "isUpdateRequest st' = isUpdateRequest st \<and> isExecutionRequest st' = isExecutionRequest st
     \<and> updateIssue st' = updateIssue st \<and> updateFile st' = updateFile st
     \<and> projectType st' = projectType st \<and> projectName st' = projectName st"
  using dispatch_cases[OF assms] by (auto simp: keepsContext_def pushTurn_def)

lemma updateOverride_other_step:
  "\<not> stepIs d ''generate_files'' \<Longrightarrow> updateOverride ev u d st = (Next, st)"
  by (simp add: updateOverride_def)

lemma finalResult_other_step:
  "\<not> stepIs d ''final_result'' \<Longrightarrow> finalResult d st = (Next, st)"
  by (simp add: finalResult_def)


lemma analyze_other_step:
  "\<not> stepIs d ''analyze'' \<Longrightarrow> analyze d st = (Next, st)"
  by (simp add: analyze_def)

lemma initialization_other_step:
  "\<not> stepIs d ''initialization'' \<Longrightarrow> initialization u d st = (Next, st)"
  by (simp add: initialization_def)

section \<open>Properties of the approval gate\<close>

lemma approvalGate_state: "approvalGate ev d st = (f, s) \<Longrightarrow> s = st"
  by (auto simp: approvalGate_def split: if_splits option.splits sum.splits)

lemma paths_can_be_printed: "\<not> list_ex toString_throws (map JStr ps)"
  by (induction ps) simp_all






section \<open>Runs of the driver on concrete replies\<close>

text \<open>
  C10. The claim: a step whose function name is not one of the four registry keys is
  skipped silently and the run goes on. The guard \<^verbatim>\<open>available_tools[dataObj.function]\<close>
  also finds the properties the registry object inherits: for the name \<^verbatim>\<open>toString\<close> the
  guard holds, \<^verbatim>\<open>toolFn\<close> is \<^verbatim>\<open>undefined\<close>, the call throws, and the run ends in the \<^verbatim>\<open>catch\<close>
  block.
\<close>

theorem inherited_function_name_aborts:
  "available_tools ''toString'' = Some Inherited
   \<and> ''toString'' \<notin> set [''read_directory'', ''create_dynamic_file'',
                            ''generate_project_structure'', ''generate_file_content'']
   \<and> fst (iteration scenarioA_request (replyEnv inherited_step) (initialState Map.empty))
      = Break (Caught TypeError)
   \<and> fst (runAgent scenarioA_request [replyEnv inherited_step, scenarioA_files_env]
            (initialState Map.empty))
      = Break (Caught TypeError)"
  by code_simp

text \<open>
  C4. The claim: the project context is empty at the start of every run, also after an
  aborted one. Only the \<^verbatim>\<open>final_result\<close> branch resets the module variables; after a run
  that ended with a rejected structure, the next run starts with the project name and the
  proposed structure of the aborted one, and a \<^verbatim>\<open>generate_structure\<close> step without a
  function puts the old structure before the user, where a fresh state goes on.
\<close>

theorem aborted_run_leaves_context:
  "fst (runAgent scenarioA_request [replyEnv name_step, scenarioA_structure_env]
         (initialState Map.empty)) = Break NotApproved
   \<and> projectName (startRun ''Write a Python script for a calculator''
        (snd (runAgent scenarioA_request [replyEnv name_step, scenarioA_structure_env]
               (initialState Map.empty)))) = Some ''todo-app''
   \<and> proposedStructure (startRun ''Write a Python script for a calculator''
        (snd (runAgent scenarioA_request [replyEnv name_step, scenarioA_structure_env]
               (initialState Map.empty)))) = JArr [JStr ''chaicode/todo-app/index.html'']
   \<and> fst (runAgent ''Write a Python script for a calculator'' [replyEnv bare_structure_step]
        (snd (runAgent scenarioA_request [replyEnv name_step, scenarioA_structure_env]
               (initialState Map.empty)))) = Break NotApproved
   \<and> fst (runAgent ''Write a Python script for a calculator'' [replyEnv bare_structure_step]
        (initialState Map.empty)) = Next"
  by code_simp

section \<open>Classification of the request and the update file\<close>

text \<open>
  The phases from the dispatch on, for a step that is neither \<^verbatim>\<open>generate_files\<close> nor
  \<^verbatim>\<open>final_result\<close>: whatever the outcome, the request flags and the update file stay.
\<close>

lemma tail_phases_keep:
  assumes ngf: "\<not> stepIs d ''generate_files''" and nfr: "\<not> stepIs d ''final_result''"
    and run: "run_phases [dispatch ev d, approvalGate ev d, updateOverride ev u d,
                          finalResult d, proceed] st = (f, st')"
  shows "isUpdateRequest st' = isUpdateRequest st \<and> updateFile st' = updateFile st"
proof -
  obtain f4 s4 where p4: "dispatch ev d st = (f4, s4)" by (cases "dispatch ev d st")
  obtain f5 s5 where p5: "approvalGate ev d s4 = (f5, s5)" by (cases "approvalGate ev d s4")
  have k4: "isUpdateRequest s4 = isUpdateRequest st \<and> updateFile s4 = updateFile st"
    using dispatch_keeps[OF p4] by simp
  have s5: "s5 = s4" using approvalGate_state[OF p5] .
  show ?thesis
  proof (cases "f4 = Next")
    case False
    with run p4 have "st' = s4" by (cases f4) simp_all
    with k4 show ?thesis by simp
  next
    case True
    show ?thesis
    proof (cases "f5 = Next")
      case False
      with run p4 p5 True have "st' = s5" by (cases f5) simp_all
      with k4 s5 show ?thesis by simp
    next
      case n5: True
      with run p4 p5 True s5 have "st' = pushTurn (User, Text ''Proceed to next step'') s4"
        by (simp add: updateOverride_other_step[OF ngf] finalResult_other_step[OF nfr]
            proceed_def)
      with k4 show ?thesis by (simp add: pushTurn_def)
    qed
  qed
qed

lemma processStep_initialization:
  assumes hasfix: "str_includes (toLowerCase userMsg) ''fix''"
    and step: "stepIs dataObj ''initialization''"
    and content: "\<not> interpolation_throws (js_prop dataObj ''content'')"
    and run: "processStep ev userMsg dataObj st = (f, st')"
  shows "isUpdateRequest st'"
proof -
  let ?s1 = "pushTurn (Model, JSON_stringify (ValJson dataObj)) st"
  let ?s2 = "?s1\<lparr>isUpdateRequest := True, updateIssue := Some userMsg\<rparr>"
  have l: "logStep dataObj st = (Next, ?s1)"
    using stepIs_not_null[OF step] stepIs_printed[OF step] content by (simp add: logStep_def)
  have i: "initialization userMsg dataObj ?s1 = (Next, ?s2)"
    using hasfix step by (simp add: initialization_def Let_def)
  have a: "analyze dataObj ?s2 = (Next, ?s2)"
    using stepIs_unique[OF step] by (simp add: analyze_other_step)
  have "run_phases [dispatch ev dataObj, approvalGate ev dataObj, updateOverride ev userMsg dataObj,
                          finalResult dataObj, proceed] ?s2 = (f, st')"
    using run l i a by (simp add: processStep_def)
  from tail_phases_keep[OF _ _ this] stepIs_unique[OF step]
  show ?thesis by simp
qed

lemma match_scenarioB:
  "js_match scenarioB_content re_update_file = Some [''todo-app'', ''style'', ''css'']"
  by code_simp

lemma analyze_scenarioB:
  assumes upd: "isUpdateRequest st" and step: "stepIs d ''analyze''"
    and content: "js_prop d ''content'' = Some (JStr scenarioB_content)"
  shows "\<exists>s. analyze d st = (Next, s) \<and> isUpdateRequest s
            \<and> updateFile s = Some ''todo-app/style.css''"
  using upd step content
  by (simp add: analyze_def Let_def match_scenarioB group_def split: option.splits)

lemma processStep_analyze:
  assumes upd: "isUpdateRequest st" and step: "stepIs d ''analyze''"
    and content: "js_prop d ''content'' = Some (JStr scenarioB_content)"
    and run: "processStep ev u d st = (f, st')"
  shows "updateFile st' = Some ''todo-app/style.css''"
proof -
  let ?s1 = "pushTurn (Model, JSON_stringify (ValJson d)) st"
  have l: "logStep d st = (Next, ?s1)"
    using stepIs_not_null[OF step] stepIs_printed[OF step] content by (simp add: logStep_def)
  have i: "initialization u d ?s1 = (Next, ?s1)"
    using stepIs_unique[OF step] by (simp add: initialization_other_step)
  have "isUpdateRequest ?s1" using upd by (simp add: pushTurn_def)
  from analyze_scenarioB[OF this step content] obtain s3 where
    a: "analyze d ?s1 = (Next, s3)" and uf: "updateFile s3 = Some ''todo-app/style.css''"
    by blast
  have "run_phases [dispatch ev d, approvalGate ev d, updateOverride ev u d,
                          finalResult d, proceed] s3 = (f, st')"
    using run l i a by (simp add: processStep_def)
  from tail_phases_keep[OF _ _ this] stepIs_unique[OF step] uf
  show ?thesis by simp
qed

text \<open>
  C6: when the user's message contains \<^verbatim>\<open>fix\<close> (in any case), the \<^verbatim>\<open>initialization\<close> step
  (a record whose content can be printed, as every string can) classifies the run as an
  update request, however the step ends; and in a run classified as an update request, an
  \<^verbatim>\<open>analyze\<close> step with the content
  \<^verbatim>\<open>Found project 'todo-app' in 'root' with a style.css.\<close> sets \<^verbatim>\<open>updateFile\<close> to
  \<^verbatim>\<open>todo-app/style.css\<close>, however the step ends.
\<close>

theorem fix_request_is_update_and_resolves_file:
  "(str_includes (toLowerCase userMsg) ''fix'' \<and> stepIs dataObj ''initialization''
      \<and> \<not> interpolation_throws (js_prop dataObj ''content'')
      \<and> processStep ev userMsg dataObj st = (f, st')
     \<longrightarrow> isUpdateRequest st')
   \<and> (isUpdateRequest su \<and> stepIs d ''analyze''
      \<and> js_prop d ''content'' = Some (JStr scenarioB_content)
      \<and> processStep ev2 u2 d su = (f2, su')
     \<longrightarrow> updateFile su' = Some ''todo-app/style.css'')"
  using processStep_initialization processStep_analyze by blast

theorem fix_request_is_update_and_resolves_file_witness:
  "str_includes (toLowerCase scenarioB_request) ''fix''
   \<and> parseStepReply scenarioB_init_step = Some scenarioB_init_record
   \<and> parseStepReply scenarioB_analyze_step = Some scenarioB_analyze_record
   \<and> isUpdateRequest
        (snd (processStep (replyEnv scenarioB_init_step) scenarioB_request scenarioB_init_record
               (startRun scenarioB_request (initialState Map.empty))))
   \<and> updateFile
        (snd (processStep (replyEnv scenarioB_analyze_step) scenarioB_request
               scenarioB_analyze_record
               (snd (processStep (replyEnv scenarioB_init_step) scenarioB_request
                      scenarioB_init_record
                      (startRun scenarioB_request (initialState Map.empty))))))
      = Some ''todo-app/style.css''"
proof -
  let ?u = scenarioB_request
  let ?e1 = "replyEnv scenarioB_init_step"
  let ?e2 = "replyEnv scenarioB_analyze_step"
  let ?s0 = "startRun ?u (initialState Map.empty)"
  let ?r1 = "processStep ?e1 ?u scenarioB_init_record ?s0"
  let ?r2 = "processStep ?e2 ?u scenarioB_analyze_record (snd ?r1)"
  have hasfix: "str_includes (toLowerCase ?u) ''fix''" by code_simp
  have parsed: "parseStepReply scenarioB_init_step = Some scenarioB_init_record"
    "parseStepReply scenarioB_analyze_step = Some scenarioB_analyze_record"
    by code_simp+
  have s1: "stepIs scenarioB_init_record ''initialization''"
    "\<not> interpolation_throws (js_prop scenarioB_init_record ''content'')"
    by (simp_all add: stepIs_def scenarioB_init_record_def)
  have s2: "stepIs scenarioB_analyze_record ''analyze''"
    "js_prop scenarioB_analyze_record ''content'' = Some (JStr scenarioB_content)"
    by (simp_all add: stepIs_def scenarioB_analyze_record_def)
  have p1: "?r1 = (fst ?r1, snd ?r1)" and p2: "?r2 = (fst ?r2, snd ?r2)" by simp_all
  note inst = fix_request_is_update_and_resolves_file[of ?u scenarioB_init_record ?e1 ?s0
      "fst ?r1" "snd ?r1" "snd ?r1" scenarioB_analyze_record ?e2 ?u "fst ?r2" "snd ?r2"]
  from inst hasfix s1 p1 have upd: "isUpdateRequest (snd ?r1)" by blast
  from inst upd s2 p2 have "updateFile (snd ?r2) = Some ''todo-app/style.css''" by blast
  with hasfix parsed upd show ?thesis by simp
qed

section \<open>The step reply parser does not check the step\<close>








section \<open>The update override\<close>

text \<open>
  The override hands \<^verbatim>\<open>createDynamicFile\<close> the array it has just built, where the function
  takes one record: \<^verbatim>\<open>args.fileName\<close> is \<^verbatim>\<open>undefined\<close>, \<^verbatim>\<open>normalizePath\<close> throws, and the
  call returns the error string without writing anything.
\<close>

lemma createDynamicFile_array:
  "createDynamicFile fs (JArr items) = Inr (ensureRootDir fs, errorResult TypeError)"
  by (simp add: createDynamicFile_def interpolation_throws_def)

lemma updateOverride_files:
  "files (snd (updateOverride ev userMsg dataObj st)) = files st
   \<or> files (snd (updateOverride ev userMsg dataObj st)) = ensureRootDir (files st)"
  by (simp add: updateOverride_def Let_def callCreateDynamicFile_def createDynamicFile_array
      recordCall_def pushTurn_def split: sum.splits)

text \<open>
  C3. The claim: in the \<^verbatim>\<open>generate_files\<close> step of an update request with a resolved
  \<^verbatim>\<open>updateFile\<close>, the forced regeneration and materialization of \<^verbatim>\<open>updateFile\<close> replaces
  the function the backend declared, which is not dispatched. The override block comes
  after the dispatch block and assigns \<^verbatim>\<open>dataObj.function\<close> and \<^verbatim>\<open>dataObj.args\<close> when the
  declared function has already run; and it passes the array of one record to
  \<^verbatim>\<open>createDynamicFile\<close>, which for an array always returns the error string, so that the
  override never changes the file system beyond making the root directory. In scenario
  B the step declares \<^verbatim>\<open>create_dynamic_file\<close> for \<^verbatim>\<open>todo-app/notes.txt\<close>: the run makes that
  call, which writes the file, then the two calls of the override, whose result is the
  error string, and \<^verbatim>\<open>todo-app/style.css\<close> is never written.
\<close>

theorem update_override_misses_file:
  "createDynamicFile fs (JArr items) = Inr (ensureRootDir fs, errorResult TypeError)
   \<and> (files (snd (updateOverride ev userMsg dataObj st)) = files st
       \<or> files (snd (updateOverride ev userMsg dataObj st)) = ensureRootDir (files st))
   \<and> isUpdateRequest (snd (runAgent scenarioB_request (take 2 scenarioB_envs) (initialState Map.empty)))
   \<and> updateFile (snd (runAgent scenarioB_request (take 2 scenarioB_envs) (initialState Map.empty)))
      = Some ''todo-app/style.css''
   \<and> parseStepReply scenarioB_files_step = Some scenarioB_files_record
   \<and> stepIs scenarioB_files_record ''generate_files''
   \<and> js_prop scenarioB_files_record ''function'' = Some (JStr ''create_dynamic_file'')
   \<and> calls (snd (runAgent scenarioB_request (take 2 scenarioB_envs) (initialState Map.empty)))
      = [ReadDirectory]
   \<and> files (snd (runAgent scenarioB_request (take 2 scenarioB_envs) (initialState Map.empty)))
        ''chaicode/todo-app/notes.txt'' = None
   \<and> fst (runAgent scenarioB_request scenarioB_envs (initialState Map.empty)) = Next
   \<and> calls (snd (runAgent scenarioB_request scenarioB_envs (initialState Map.empty)))
      = [ReadDirectory, CreateDynamicFile, GenerateFileContent, CreateDynamicFile]
   \<and> files (snd (runAgent scenarioB_request scenarioB_envs (initialState Map.empty)))
        ''chaicode/todo-app/notes.txt'' = Some (File (units_of ''fixed''))
   \<and> files (snd (runAgent scenarioB_request scenarioB_envs (initialState Map.empty)))
        ''chaicode/todo-app/style.css'' = None
   \<and> drop 7 (contents (snd (runAgent scenarioB_request scenarioB_envs (initialState Map.empty))))
      = [(User, JSON_stringify
                  (ValJson (JStr ''File chaicode/todo-app/notes.txt created successfully''))),
         (User, JSON_stringify (ValJson (JStr ''Error creating/updating file: TypeError''))),
         (User, Text ''Proceed to next step'')]"
proof -
  let ?sb = "snd (runAgent scenarioB_request (take 2 scenarioB_envs) (initialState Map.empty))"
  let ?se = "snd (runAgent scenarioB_request scenarioB_envs (initialState Map.empty))"
  have run: "isUpdateRequest ?sb
   \<and> updateFile ?sb = Some ''todo-app/style.css''
   \<and> parseStepReply scenarioB_files_step = Some scenarioB_files_record
   \<and> stepIs scenarioB_files_record ''generate_files''
   \<and> js_prop scenarioB_files_record ''function'' = Some (JStr ''create_dynamic_file'')
   \<and> calls ?sb = [ReadDirectory]
   \<and> files ?sb ''chaicode/todo-app/notes.txt'' = None
   \<and> fst (runAgent scenarioB_request scenarioB_envs (initialState Map.empty)) = Next
   \<and> calls ?se = [ReadDirectory, CreateDynamicFile, GenerateFileContent, CreateDynamicFile]
   \<and> files ?se ''chaicode/todo-app/notes.txt'' = Some (File (units_of ''fixed''))
   \<and> files ?se ''chaicode/todo-app/style.css'' = None
   \<and> drop 7 (contents ?se)
      = [(User, JSON_stringify
                  (ValJson (JStr ''File chaicode/todo-app/notes.txt created successfully''))),
         (User, JSON_stringify (ValJson (JStr ''Error creating/updating file: TypeError''))),
         (User, Text ''Proceed to next step'')]"
    by code_simp
  from createDynamicFile_array[of fs items] updateOverride_files[of ev userMsg dataObj st] run
  show ?thesis by blast
qed

end
